theory Spec2Isabelle
  imports Main "HOL-Library.Char_ord" "HOL-Library.List_Lexorder" "HOL-Library.AList"
    "HOL-Library.Multiset"
begin

section \<open>Credential\<close>

text \<open>
  A Go call either returns a value or panics (a nil function value called, a nil pointer
  dereferenced).
\<close>

datatype 'a run = Ret 'a | Panic

text \<open>
  \<^verbatim>\<open>[]byte\<close> is a nullable slice: \<open>None\<close> is the nil slice. A \<^verbatim>\<open>Signer\<close> is a function
  value, itself nullable.
\<close>

type_synonym bytes = "string option"

type_synonym Signer = "string \<Rightarrow> string \<Rightarrow> bytes run"

record Api =
  ApiKey :: string
  SecretKey :: string
  Passphrase :: string
  signer :: "Signer option"

text \<open>Calling a function value: the nil function panics.\<close>

definition call_signer :: "Signer option \<Rightarrow> string \<Rightarrow> string \<Rightarrow> bytes run" where
  "call_signer f payload key = (case f of None \<Rightarrow> Panic | Some g \<Rightarrow> g payload key)"

definition Sign :: "Api \<Rightarrow> string \<Rightarrow> string \<Rightarrow> bytes run" where
  "Sign api payload key =
     (if signer api \<noteq> None then call_signer (signer api) payload key else Ret None)"


section \<open>Text of numbers\<close>

text \<open>\<^verbatim>\<open>strconv.FormatInt(i, 10)\<close> and the verbs \<^verbatim>\<open>%d\<close>, \<^verbatim>\<open>%v\<close> on an integer.\<close>

definition digit :: "nat \<Rightarrow> char" where
  "digit d = ''0123456789'' ! d"

function FormatUint :: "nat \<Rightarrow> string" where
  "FormatUint n = (if n < 10 then [digit n] else FormatUint (n div 10) @ [digit (n mod 10)])"
  by pat_completeness auto
termination
  by (relation "measure id") auto

declare FormatUint.simps [simp del]

definition FormatInt :: "int \<Rightarrow> string" where
  "FormatInt i = (if i < 0 then CHR ''-'' # FormatUint (nat (- i)) else FormatUint (nat i))"

section \<open>Errors\<close>

text \<open>
  A non-nil value of Go's \<^verbatim>\<open>error\<close> interface, as far as this code builds and inspects one:
  \<^item> \<open>Sentinel n\<close>: a package-level \<^verbatim>\<open>errors.New\<close> value such as \<^verbatim>\<open>cex.ErrInvalidTimestamp\<close>,
    identified by the name \<open>n\<close> of its variable. Its text is declared outside these
    sources; the name is printed for it.
  \<^item> \<open>External s\<close>: an error of a library (JSON decoding, the transport, parameter
    serialization) with text \<open>s\<close>, wrapping nothing.
  \<^item> \<open>Wrapped s ws\<close>: the result of \<^verbatim>\<open>fmt.Errorf\<close>, with text \<open>s\<close> and the operands of its
    \<^verbatim>\<open>%w\<close> verbs that hold an error.
  \<^item> \<open>BodyErrPtr p\<close>: a \<^verbatim>\<open>*RespBodyUnmarshalerError\<close> stored in the interface. The pointer
    may be nil (\<open>None\<close>) while the interface value is not.
\<close>

datatype err =
    Sentinel string
  | External string
  | Wrapped string "err list"
  | BodyErrPtr "RespBodyUnmarshalerError option"
and RespBodyUnmarshalerError =
    MkBodyErr (CexErrCode: int) (CexErrMsg: string) (BErr: "err option")

definition ErrInvalidTimestamp :: string where
  "ErrInvalidTimestamp = ''ErrInvalidTimestamp''"

definition ErrUnexpected :: string where
  "ErrUnexpected = ''ErrUnexpected''"

definition ErrS2M :: string where
  "ErrS2M = ''ErrS2M''"

definition ErrJsonUnmarshal :: string where
  "ErrJsonUnmarshal = ''ErrJsonUnmarshal''"

definition ErrJsonMarshal :: string where
  "ErrJsonMarshal = ''ErrJsonMarshal''"

text \<open>
  What \<^verbatim>\<open>fmt\<close> prints for an error operand: the result of its \<^verbatim>\<open>Error\<close> method.
  \<^verbatim>\<open>(*RespBodyUnmarshalerError).Error\<close> dereferences its receiver; \<^verbatim>\<open>fmt\<close> recovers the panic of
  a nil receiver and prints \<^verbatim>\<open><nil>\<close>. A nil interface prints as \<^verbatim>\<open><nil>\<close> under \<^verbatim>\<open>%v\<close>
  and as \<^verbatim>\<open>%!w(<nil>)\<close> under \<^verbatim>\<open>%w\<close>.
\<close>

fun Error_text :: "err \<Rightarrow> string" where
  "Error_text (Sentinel n) = n"
| "Error_text (External s) = s"
| "Error_text (Wrapped s ws) = s"
| "Error_text (BodyErrPtr None) = ''<nil>''"
| "Error_text (BodyErrPtr (Some (MkBodyErr c m None))) =
     ''code: '' @ FormatInt c @ '', msg: '' @ m @ '', err: <nil>''"
| "Error_text (BodyErrPtr (Some (MkBodyErr c m (Some e)))) =
     ''code: '' @ FormatInt c @ '', msg: '' @ m @ '', err: '' @ Error_text e"

definition fmt_v :: "err option \<Rightarrow> string" where
  "fmt_v e = (case e of None \<Rightarrow> ''<nil>'' | Some x \<Rightarrow> Error_text x)"

definition fmt_w :: "err option \<Rightarrow> string" where
  "fmt_w e = (case e of None \<Rightarrow> ''%!w(<nil>)'' | Some x \<Rightarrow> Error_text x)"

text \<open>
  \<^verbatim>\<open>fmt.Errorf\<close> on a format cut into pieces: literal text, an operand already printed
  (\<^verbatim>\<open>%v\<close>, \<^verbatim>\<open>%d\<close>, \<^verbatim>\<open>%s\<close>), or a \<^verbatim>\<open>%w\<close> operand. The result wraps the \<^verbatim>\<open>%w\<close> operands that are
  errors, in order; a nil interface is not one.
\<close>

datatype piece = Lit string | W "err option"

fun piece_text :: "piece \<Rightarrow> string" where
  "piece_text (Lit s) = s"
| "piece_text (W e) = fmt_w e"

fun piece_errs :: "piece \<Rightarrow> err list" where
  "piece_errs (Lit s) = []"
| "piece_errs (W None) = []"
| "piece_errs (W (Some e)) = [e]"

definition Errorf :: "piece list \<Rightarrow> err" where
  "Errorf ps = Wrapped (concat (map piece_text ps)) (concat (map piece_errs ps))"

text \<open>
  \<^verbatim>\<open>errors.Is(err, target)\<close> for a non-nil \<open>err\<close> and a sentinel target: the depth-first walk
  of the wrapped errors. An error with an \<^verbatim>\<open>Is\<close> method is asked first;
  \<^verbatim>\<open>(*RespBodyUnmarshalerError).Is\<close> reads \<^verbatim>\<open>e.Err\<close>, so a nil pointer reached by the walk
  panics.
\<close>

fun errors_Is :: "err \<Rightarrow> string \<Rightarrow> bool run"
  and errors_Is_list :: "err list \<Rightarrow> string \<Rightarrow> bool run" where
  "errors_Is (Sentinel n) t = Ret (n = t)"
| "errors_Is (External s) t = Ret False"
| "errors_Is (Wrapped s ws) t = errors_Is_list ws t"
| "errors_Is (BodyErrPtr None) t = Panic"
| "errors_Is (BodyErrPtr (Some (MkBodyErr c m None))) t = Ret False"
| "errors_Is (BodyErrPtr (Some (MkBodyErr c m (Some e)))) t = errors_Is e t"
| "errors_Is_list [] t = Ret False"
| "errors_Is_list (e # es) t =
     (case errors_Is e t of
        Panic \<Rightarrow> Panic
      | Ret True \<Rightarrow> Ret True
      | Ret False \<Rightarrow> errors_Is_list es t)"


section \<open>Query strings\<close>

text \<open>
  \<^verbatim>\<open>url.QueryEscape\<close>: letters, digits and \<^verbatim>\<open>- _ . ~\<close> stay, a space becomes \<^verbatim>\<open>+\<close>, every other
  byte becomes \<^verbatim>\<open>%XX\<close> in upper-case hexadecimal.
\<close>

definition shouldEscape :: "char \<Rightarrow> bool" where
  "shouldEscape c =
     (\<not> ((CHR ''a'' \<le> c \<and> c \<le> CHR ''z'') \<or> (CHR ''A'' \<le> c \<and> c \<le> CHR ''Z'') \<or>
         (CHR ''0'' \<le> c \<and> c \<le> CHR ''9'') \<or> c \<in> set ''-_.~''))"

definition upperhex :: string where
  "upperhex = ''0123456789ABCDEF''"

definition escape_byte :: "char \<Rightarrow> string" where
  "escape_byte c =
     (if shouldEscape c then
        (if c = CHR '' '' then ''+''
         else [CHR ''%'', upperhex ! (of_char c div 16), upperhex ! (of_char c mod 16)])
      else [c])"

definition QueryEscape :: "string \<Rightarrow> string" where
  "QueryEscape s = concat (map escape_byte s)"

text \<open>
  \<^verbatim>\<open>url.Values\<close> is a \<^verbatim>\<open>map[string][]string\<close>: an association list whose keys are distinct.
  \<^verbatim>\<open>Set\<close> replaces the values of a key by one value; indexing a missing key gives the nil
  slice.
\<close>

type_synonym Values = "(string \<times> string list) list"

definition Set_val :: "string \<Rightarrow> string \<Rightarrow> Values \<Rightarrow> Values" where
  "Set_val k v val = AList.update k [v] val"

definition index_val :: "Values \<Rightarrow> string \<Rightarrow> string list" where
  "index_val val k = (case map_of val k of None \<Rightarrow> [] | Some vs \<Rightarrow> vs)"

text \<open>
  \<^verbatim>\<open>Values.Encode\<close>: the keys are sorted (bytewise, as Go compares strings); each value of
  each key is written as \<^verbatim>\<open>key=value\<close>, escaped, with \<^verbatim>\<open>&\<close> before all but the first.
\<close>

fun Encode_values :: "string \<Rightarrow> string list \<Rightarrow> string \<Rightarrow> string" where
  "Encode_values keyEscaped [] buf = buf"
| "Encode_values keyEscaped (v # vs) buf =
     Encode_values keyEscaped vs
       ((if buf \<noteq> [] then buf @ ''&'' else buf) @ keyEscaped @ ''='' @ QueryEscape v)"

fun Encode_keys :: "Values \<Rightarrow> string list \<Rightarrow> string \<Rightarrow> string" where
  "Encode_keys val [] buf = buf"
| "Encode_keys val (k # keys) buf =
     Encode_keys val keys (Encode_values (QueryEscape k) (index_val val k) buf)"

definition Encode :: "Values \<Rightarrow> string" where
  "Encode val = (if val = [] then [] else Encode_keys val (sort (map fst val)) [])"

section \<open>Request maker\<close>

text \<open>
  \<^verbatim>\<open>s2m.ToStrMap\<close> (a library outside the repository) serializes the typed parameters into a
  \<^verbatim>\<open>map[string]string\<close> or fails. It is a parameter of the model; its map is given as the
  list of entries in the order in which the \<^verbatim>\<open>range\<close> loop visits them, which Go leaves
  open. The keys of a map are distinct.
\<close>

type_synonym StrMap = "(string \<times> string) list"

type_synonym 'p ToStrMap = "'p \<Rightarrow> err + StrMap"

text \<open>The loop \<^verbatim>\<open>for k, v := range m { val.Set(k, v) }\<close>.\<close>

fun set_all :: "StrMap \<Rightarrow> Values \<Rightarrow> Values" where
  "set_all [] val = val"
| "set_all ((k, v) # m) val = set_all m (Set_val k v val)"

text \<open>
  \<^verbatim>\<open>signReqData\<close>. The clock (\<^verbatim>\<open>time.Now().UnixMilli()\<close>) is the argument \<open>now\<close>; the helper
  \<^verbatim>\<open>cex.SignByHmacSHA256ToHex\<close>, whose body is not among the sources, is the argument
  \<open>SignByHmacSHA256ToHex\<close>. The result is the query or the error.
\<close>

definition signReqData ::
  "'p ToStrMap \<Rightarrow> (string \<Rightarrow> string \<Rightarrow> string) \<Rightarrow> int \<Rightarrow> 'p \<Rightarrow> string \<Rightarrow> err + string" where
  "signReqData ToStrMap SignByHmacSHA256ToHex now data key =
     (case ToStrMap data of
        Inl e \<Rightarrow> Inl (Errorf [W (Some (Sentinel ErrS2M)), Lit '': '', W (Some e)])
      | Inr m \<Rightarrow>
          (let val = [(''timestamp'', [FormatInt now])];
               val = set_all m val;
               query = Encode val;
               sig = SignByHmacSHA256ToHex query key
           in Inr (query @ ''&signature='' @ sig)))"

text \<open>
  The base configuration of an endpoint. The maker's file calls the authentication flag
  \<^verbatim>\<open>IsUserData\<close>.
\<close>

record ReqBaseConfig =
  BaseUrl :: string
  Path :: string
  Method :: string
  IsUserData :: bool
  UserTimeInterval :: int
  IpTimeInterval :: int

text \<open>
  What the maker sets on the transport's client and request: the base URL, the headers and
  the query string. An option (\<^verbatim>\<open>cex.ReqOpt\<close>) mutates both; here it maps the handle.
\<close>

record Handle =
  BaseURL :: string
  Header :: "(string \<times> string) list"
  QueryString :: string

definition resty_New :: Handle where
  "resty_New = \<lparr>BaseURL = [], Header = [], QueryString = []\<rparr>"

type_synonym ReqOpt = "Handle \<Rightarrow> Handle"

fun apply_opts :: "ReqOpt list \<Rightarrow> Handle \<Rightarrow> Handle" where
  "apply_opts [] h = h"
| "apply_opts (opt # opts) h = apply_opts opts (opt h)"

text \<open>
  The maker returns Go's pair \<^verbatim>\<open>(*resty.Request, error)\<close>; each component may be nil.
\<close>

type_synonym made = "Handle option \<times> err option"

record 'p User =
  api :: Api
  ToStrMap :: "'p ToStrMap"
  SignByHmacSHA256ToHex :: "string \<Rightarrow> string \<Rightarrow> string"

definition sign :: "'p User \<Rightarrow> int \<Rightarrow> 'p \<Rightarrow> err + string" where
  "sign u now data = signReqData (ToStrMap u) (SignByHmacSHA256ToHex u) now data (SecretKey (api u))"

definition makePublicReq :: "'p User \<Rightarrow> ReqBaseConfig \<Rightarrow> 'p \<Rightarrow> ReqOpt list \<Rightarrow> made" where
  "makePublicReq u config reqData opts =
     (case ToStrMap u reqData of
        Inl e \<Rightarrow> (None, Some (Errorf [Lit ''bnc: make public request, '', W (Some e)]))
      | Inr m \<Rightarrow>
          (let val = set_all m [];
               clt = resty_New\<lparr>BaseURL := BaseUrl config\<rparr>;
               req = clt\<lparr>QueryString := Encode val\<rparr>;
               req = apply_opts opts req
           in (None, None)))"

definition makePrivateReq :: "'p User \<Rightarrow> int \<Rightarrow> ReqBaseConfig \<Rightarrow> 'p \<Rightarrow> ReqOpt list \<Rightarrow> made" where
  "makePrivateReq u now config reqData opts =
     (case sign u now reqData of
        Inl e \<Rightarrow> (None, Some e)
      | Inr query \<Rightarrow>
          (let clt = resty_New\<lparr>Header := [(''X-MBX-APIKEY'', ApiKey (api u))],
                              BaseURL := BaseUrl config @ Path config @ ''?'' @ query\<rparr>;
               req = clt;
               req = apply_opts opts req
           in (Some req, None)))"

definition Make :: "'p User \<Rightarrow> int \<Rightarrow> ReqBaseConfig \<Rightarrow> 'p \<Rightarrow> ReqOpt list \<Rightarrow> made" where
  "Make u now config reqData opts =
     (if IsUserData config then makePrivateReq u now config reqData opts
      else makePublicReq u config reqData opts)"

text \<open>
  The canonical encoding in the words of the specification: the pairs sorted by key, each
  written \<^verbatim>\<open>key=value\<close> with both sides escaped, joined by \<^verbatim>\<open>&\<close>.
\<close>

fun join_amp :: "string list \<Rightarrow> string" where
  "join_amp [] = []"
| "join_amp [s] = s"
| "join_amp (s # t # ss) = s @ ''&'' @ join_amp (t # ss)"

definition canonical_query :: "StrMap \<Rightarrow> string" where
  "canonical_query kvs =
     join_amp (map (\<lambda>(k, v). QueryEscape k @ ''='' @ QueryEscape v) (sort_key fst kvs))"

text \<open>One pair of the encoding.\<close>
definition pair_text :: "string \<Rightarrow> string \<Rightarrow> string" where
  "pair_text k v = QueryEscape k @ ''='' @ QueryEscape v"

section \<open>Response bodies\<close>

text \<open>
  A JSON value as \<^verbatim>\<open>encoding/json\<close> reads it. A number literal without fraction and exponent
  is given by its value, any other number literal by its text. The members of an object
  are in document order; a name may occur more than once.
\<close>

datatype json =
    JNull
  | JBool bool
  | JInteger int
  | JReal string
  | JString string
  | JArray "json list"
  | JObject "(string \<times> json) list"

text \<open>
  A response body is given by what \<^verbatim>\<open>encoding/json\<close> finds in its bytes: \<open>Invalid\<close> when they
  are not a JSON text, \<open>Doc v\<close> when they are the value \<open>v\<close>.
\<close>

datatype body = Invalid | Doc json

text \<open>
  Modelled from the spec: the type \<^verbatim>\<open>CodeMsg\<close>, declared outside these sources. It is the
  minimal error envelope: an integer code and a message, under the JSON names \<^verbatim>\<open>code\<close> and
  \<^verbatim>\<open>msg\<close> of the exchange's error payloads. The types of the two fields follow from their
  use in \<^verbatim>\<open>fuBodyUnmshCodeMsg\<close>, which compares the code with integers and stores code and
  message into the \<^verbatim>\<open>int\<close> and \<^verbatim>\<open>string\<close> fields of the body error.
\<close>

record CodeMsg =
  Code :: int
  Msg :: string

text \<open>
  \<^verbatim>\<open>json.Unmarshal(body, &codeMsg)\<close>. The whole text is checked first, and a text that is not
  JSON leaves the target untouched. \<^verbatim>\<open>null\<close> changes nothing and is no error. For an
  object, each member whose name is a field's name is decoded into that field in turn; a
  value that does not fit the field is skipped, the first such mismatch is the error
  returned at the end, and the other members are still decoded. Any other value is a
  mismatch with the struct.

  A member names a field when the two names are equal after \<^verbatim>\<open>encoding/json\<close>'s folding, which
  replaces every rune by the smallest rune of its Unicode simple-folding orbit. On the
  UTF-8 bytes of a name: an ASCII letter becomes its capital; the long s (U+017F, bytes
  C5 BF) becomes \<^verbatim>\<open>S\<close> and the Kelvin sign (U+212A, bytes E2 84 AA) becomes \<^verbatim>\<open>K\<close>, the only
  runes outside ASCII whose orbit holds an ASCII letter; every other byte is kept, since
  any other rune folds to a rune outside ASCII, which no letter of a field's name equals.
\<close>

definition upper :: "char \<Rightarrow> char" where
  "upper c =
     (case map_of (zip ''abcdefghijklmnopqrstuvwxyz'' ''ABCDEFGHIJKLMNOPQRSTUVWXYZ'') c of
        None \<Rightarrow> c
      | Some capital \<Rightarrow> capital)"

function foldName :: "string \<Rightarrow> string" where
  "foldName [] = []"
| "foldName (c # cs) =
     (if c = CHR 0xC5 \<and> take 1 cs = [CHR 0xBF] then CHR ''S'' # foldName (drop 1 cs)
      else if c = CHR 0xE2 \<and> take 2 cs = [CHR 0x84, CHR 0xAA] then CHR ''K'' # foldName (drop 2 cs)
      else upper c # foldName cs)"
  by pat_completeness auto
termination
  by (relation "measure length") auto

definition names_field :: "string \<Rightarrow> string \<Rightarrow> bool" where
  "names_field k f = (foldName k = foldName f)"

definition fits_int :: "int \<Rightarrow> bool" where
  "fits_int n = (- (2 ^ 63) \<le> n \<and> n < 2 ^ 63)"

definition saveError :: "err \<Rightarrow> err option \<Rightarrow> err option" where
  "saveError e saved = (case saved of None \<Rightarrow> Some e | Some first \<Rightarrow> Some first)"

definition mismatch :: "string \<Rightarrow> err" where
  "mismatch field = External (''json: cannot unmarshal into Go struct field CodeMsg.'' @ field)"

fun decode_member :: "string \<times> json \<Rightarrow> err option \<times> CodeMsg \<Rightarrow> err option \<times> CodeMsg" where
  "decode_member (k, v) (saved, c) =
     (if names_field k ''code'' then
        (case v of
           JNull \<Rightarrow> (saved, c)
         | JInteger n \<Rightarrow>
             (if fits_int n then (saved, c\<lparr>Code := n\<rparr>) else (saveError (mismatch ''code'') saved, c))
         | _ \<Rightarrow> (saveError (mismatch ''code'') saved, c))
      else if names_field k ''msg'' then
        (case v of
           JNull \<Rightarrow> (saved, c)
         | JString t \<Rightarrow> (saved, c\<lparr>Msg := t\<rparr>)
         | _ \<Rightarrow> (saveError (mismatch ''msg'') saved, c))
      else (saved, c))"

fun decode_members ::
  "(string \<times> json) list \<Rightarrow> err option \<times> CodeMsg \<Rightarrow> err option \<times> CodeMsg" where
  "decode_members [] r = r"
| "decode_members (kv # kvs) r = decode_members kvs (decode_member kv r)"

fun Unmarshal_CodeMsg :: "body \<Rightarrow> CodeMsg \<Rightarrow> err option \<times> CodeMsg" where
  "Unmarshal_CodeMsg Invalid c = (Some (External ''json: syntax error''), c)"
| "Unmarshal_CodeMsg (Doc JNull) c = (None, c)"
| "Unmarshal_CodeMsg (Doc (JObject kvs)) c = decode_members kvs (None, c)"
| "Unmarshal_CodeMsg (Doc v) c =
     (Some (External ''json: cannot unmarshal into Go value of type bnc.CodeMsg''), c)"

text \<open>
  The envelope that \<^verbatim>\<open>fuBodyUnmshCodeMsg\<close> reads from a body, and the error of that reading
  (which the function discards).
\<close>

definition envelope :: "body \<Rightarrow> CodeMsg" where
  "envelope b = snd (Unmarshal_CodeMsg b \<lparr>Code = 0, Msg = []\<rparr>)"


section \<open>Futures body unmarshaler\<close>

text \<open>
  \<^verbatim>\<open>fuBodyUnmshCodeMsg\<close>. The table \<^verbatim>\<open>spotCexCustomErrCodes\<close> (a \<^verbatim>\<open>map[int]error\<close> declared outside
  these sources) is a parameter. The error of \<^verbatim>\<open>json.Unmarshal\<close> is discarded.
\<close>

definition fuBodyUnmshCodeMsg :: "(int \<Rightarrow> err option) \<Rightarrow> body \<Rightarrow> RespBodyUnmarshalerError option" where
  "fuBodyUnmshCodeMsg spotCexCustomErrCodes b =
     (let codeMsg = \<lparr>Code = 0, Msg = []\<rparr>;
          codeMsg = snd (Unmarshal_CodeMsg b codeMsg);
          code = Code codeMsg;
          msg = Msg codeMsg
      in if code = 0 \<or> code = 200 then None
         else if code > 0 then
           Some (MkBodyErr code msg
             (Some (Errorf [Lit ''bnc: '', W (Some (Sentinel ErrUnexpected)),
                            Lit ('': code: '' @ FormatInt code @ '', msg: '' @ msg)])))
         else
           (let errCtm = spotCexCustomErrCodes code;
                errCtm = (if errCtm = None then Some (Errorf [Lit (FormatInt code @ '', '' @ msg)])
                          else errCtm)
            in Some (MkBodyErr code msg (Some (Errorf [Lit ''bnc: '', W errCtm])))))"

text \<open>
  A \<^verbatim>\<open>RespBodyUnmarshaler[D]\<close> maps a body to the payload and a nullable error.
  \<^verbatim>\<open>fuBodyUnmshWrapper\<close> puts the envelope check before one; \<open>zero\<close> is the zero value of \<^verbatim>\<open>D\<close>.
\<close>

type_synonym ('b, 'd) RespBodyUnmarshaler = "'b \<Rightarrow> 'd \<times> RespBodyUnmarshalerError option"

definition fuBodyUnmshWrapper ::
  "(int \<Rightarrow> err option) \<Rightarrow> 'd \<Rightarrow> (body, 'd) RespBodyUnmarshaler \<Rightarrow> (body, 'd) RespBodyUnmarshaler" where
  "fuBodyUnmshWrapper spotCexCustomErrCodes zero unmarshaler b =
     (let d = zero in
      case fuBodyUnmshCodeMsg spotCexCustomErrCodes b of
        Some e \<Rightarrow> (d, Some e)
      | None \<Rightarrow> unmarshaler b)"

section \<open>Kline body unmarshaler\<close>

definition klineMapKeys :: "string list" where
  "klineMapKeys =
     [''openTime'', ''openPrice'', ''highPrice'', ''lowPrice'', ''closePrice'', ''volume'',
      ''closeTime'', ''quoteAssetVolume'', ''tradesNumber'', ''takerBuyBaseAssetVolume'',
      ''takerBuyQuoteAssetVolume'', ''unused'']"

definition klineLastIndex :: int where
  "klineLastIndex = int (length klineMapKeys) - 1"

text \<open>
  The inner loop \<^verbatim>\<open>for i, v := range kline\<close> over one row, from index \<open>i\<close> on: it stops at the
  first index past \<^verbatim>\<open>klineLastIndex\<close>, and stores the value under the \<open>i\<close>-th name otherwise.
  The map \<^verbatim>\<open>m\<close> is a \<^verbatim>\<open>map[string]any\<close>.
\<close>

fun kline_range :: "nat \<Rightarrow> 'v list \<Rightarrow> (string \<rightharpoonup> 'v) \<Rightarrow> (string \<rightharpoonup> 'v)" where
  "kline_range i [] m = m"
| "kline_range i (v # vs) m =
     (if int i > klineLastIndex then m
      else kline_range (Suc i) vs (m(klineMapKeys ! i \<mapsto> v)))"

text \<open>
  The three calls into \<^verbatim>\<open>encoding/json\<close> are parameters: decoding the body into \<^verbatim>\<open>[][]any\<close>,
  encoding the map, and decoding its text into a \<^verbatim>\<open>Kline\<close> (a type declared outside these
  sources).
\<close>

record ('b, 'v, 't, 'k) kline_json =
  Unmarshal_rows :: "'b \<Rightarrow> err + 'v list list"
  Marshal_map :: "(string \<rightharpoonup> 'v) \<Rightarrow> err + 't"
  Unmarshal_Kline :: "'t \<Rightarrow> err + 'k"

text \<open>The outer loop \<^verbatim>\<open>for _, kline := range data\<close>, with the klines appended so far.\<close>

fun klines_range ::
  "('b, 'v, 't, 'k) kline_json \<Rightarrow> 'v list list \<Rightarrow> 'k list \<Rightarrow> 'k list \<times> RespBodyUnmarshalerError option" where
  "klines_range J [] klines = (klines, None)"
| "klines_range J (kline # data) klines =
     (let m = kline_range 0 kline Map.empty in
      case Marshal_map J m of
        Inl e \<Rightarrow>
          ([], Some (MkBodyErr 0 []
             (Some (Errorf [W (Some (Sentinel ErrJsonMarshal)), Lit '': '', W (Some e)]))))
      | Inr d \<Rightarrow>
          (case Unmarshal_Kline J d of
             Inl e \<Rightarrow>
               ([], Some (MkBodyErr 0 []
                  (Some (Errorf [W (Some (Sentinel ErrJsonUnmarshal)), Lit '': '', W (Some e)]))))
           | Inr k \<Rightarrow> klines_range J data (klines @ [k])))"

definition klineBodyUnmsher ::
  "('b, 'v, 't, 'k) kline_json \<Rightarrow> 'b \<Rightarrow> 'k list \<times> RespBodyUnmarshalerError option" where
  "klineBodyUnmsher J b =
     (case Unmarshal_rows J b of
        Inl e \<Rightarrow>
          ([], Some (MkBodyErr 0 []
             (Some (Errorf [W (Some (Sentinel ErrJsonUnmarshal)), Lit '': '', W (Some e)]))))
      | Inr data \<Rightarrow> klines_range J data [])"

text \<open>
  The named structure in the words of the specification: the first declared field names,
  each with the value at its position.
\<close>

definition named_row :: "'v list \<Rightarrow> (string \<rightharpoonup> 'v)" where
  "named_row row = map_of (zip klineMapKeys row)"

text \<open>
  One row decoded: the map of its named positions is encoded and the text decoded into a
  \<^verbatim>\<open>Kline\<close>; \<open>None\<close> when either step fails.
\<close>

definition kline_of :: "('b, 'v, 't, 'k) kline_json \<Rightarrow> 'v list \<Rightarrow> 'k option" where
  "kline_of J row =
     (case Marshal_map J (named_row row) of
        Inl e \<Rightarrow> None
      | Inr t \<Rightarrow> (case Unmarshal_Kline J t of Inl e \<Rightarrow> None | Inr k \<Rightarrow> Some k))"

section \<open>Generic executor\<close>

text \<open>The transport's response: status code, status line and raw body.\<close>

record 'b Response =
  RespStatusCode :: int
  RespStatus :: string
  RespBody :: 'b

record HTTPError =
  StatusCode :: int
  Status :: string
  HErr :: "err option"

record RequestError =
  ReqBaseConfig :: ReqBaseConfig
  HTTPError :: "HTTPError option"
  RespBodyUnmarshalerError :: "RespBodyUnmarshalerError option"
  Err :: "err option"

definition SetErr :: "RequestError \<Rightarrow> err \<Rightarrow> RequestError" where
  "SetErr e x = e\<lparr>Err := Some x\<rparr>"

text \<open>\<^verbatim>\<open>(*RequestError).Is\<close>: \<^verbatim>\<open>e.Err != nil && errors.Is(e.Err, target)\<close>.\<close>

definition RequestError_Is :: "RequestError \<Rightarrow> string \<Rightarrow> bool run" where
  "RequestError_Is e target = (case Err e of None \<Rightarrow> Ret False | Some x \<Rightarrow> errors_Is x target)"

text \<open>
  An endpoint configuration: the base configuration with the status classifier and the
  body decoder, both function values and so nullable.
\<close>

record ('b, 'd) ReqConfig = ReqBaseConfig +
  HTTPStatusCodeChecker :: "(int \<Rightarrow> err option) option"
  RespBodyUnmarshaler :: "('b, 'd) RespBodyUnmarshaler option"

text \<open>
  The maker and the transport act on the world outside (the clock, the network), which is
  threaded through the calls. A maker returns a nullable request and a nullable error;
  the transport, given the method and the request, a nullable response and a nullable
  error. The calls made are recorded in a trace.
\<close>

datatype event = Made | Sent string | Checked int | Unmarshaled

record 'w state =
  world :: 'w
  trace :: "event list"

type_synonym ('p, 'o, 'q, 'w) ReqMaker =
  "ReqBaseConfig \<Rightarrow> 'p \<Rightarrow> 'o list \<Rightarrow> 'w \<Rightarrow> ('q option \<times> err option) \<times> 'w"

type_synonym ('q, 'b, 'w) Transport =
  "string \<Rightarrow> 'q \<Rightarrow> 'w \<Rightarrow> ('b Response option \<times> err option) \<times> 'w"

definition log :: "event \<Rightarrow> 'w \<Rightarrow> 'w state \<Rightarrow> 'w state" where
  "log ev w s = \<lparr>world = w, trace = trace s @ [ev]\<rparr>"

type_synonym ('b, 'd) result = "'b Response option \<times> 'd \<times> RequestError"

text \<open>
  \<^verbatim>\<open>request\<close>: one attempt. \<open>zero\<close> is the zero value of the response type. Calling
  \<^verbatim>\<open>req.Get\<close> and its siblings on the nil request dereferences it.
\<close>

definition request ::
  "('p, 'o, 'q, 'w) ReqMaker \<Rightarrow> ('q, 'b, 'w) Transport \<Rightarrow> 'd \<Rightarrow> ('b, 'd) ReqConfig \<Rightarrow> 'p \<Rightarrow> 'o list \<Rightarrow>
   'w state \<Rightarrow> ('b, 'd) result run \<times> 'w state" where
  "request reqMaker transport zero config reqData opts s =
     (let reqErr = \<lparr>ReqBaseConfig = ReqBaseConfig.truncate config, HTTPError = None,
                     RespBodyUnmarshalerError = None, Err = None\<rparr>;
          respData = zero
      in case reqMaker (ReqBaseConfig.truncate config) reqData opts (world s) of
        ((req, err), w) \<Rightarrow>
          (let s = log Made w s in
           if err \<noteq> None then
             (Ret (None, respData, SetErr reqErr (Errorf [Lit ''cex: make request, '', W err])), s)
           else if Method config \<notin> {''GET'', ''POST'', ''PUT'', ''DELETE''} then
             (Ret (None, respData,
                SetErr reqErr
                  (Errorf [Lit (''cex: http method '' @ Method config @ '' is not supported'')])), s)
           else
             (case req of
                None \<Rightarrow> (Panic, s)
              | Some r \<Rightarrow>
                  (case transport (Method config) r (world s) of
                     ((resp, err), w) \<Rightarrow>
                       (let s = log (Sent (Method config)) w s in
                        if err \<noteq> None \<and> resp = None then
                          (Ret (resp, respData,
                             SetErr reqErr (Errorf [Lit ''cex: request err: '', W err])), s)
                        else
                          (case resp of
                             None \<Rightarrow>
                               (Ret (resp, respData,
                                  SetErr reqErr
                                    (Errorf [Lit ''cex: resp and err are all nil, resty may have bugs''])), s)
                           | Some rp \<Rightarrow>
                               (let errResty = err in
                                case HTTPStatusCodeChecker config of
                                  None \<Rightarrow>
                                    (Ret (resp, respData,
                                       SetErr reqErr
                                         (Errorf [Lit ''cex: config http status code checker is nil''])), s)
                                | Some checker \<Rightarrow>
                                    (case RespBodyUnmarshaler config of
                                       None \<Rightarrow>
                                         (Ret (resp, respData,
                                            SetErr reqErr
                                              (Errorf [Lit ''cex: config resp body unmarshaler is nil''])), s)
                                     | Some unmarshaler \<Rightarrow>
                                         (let errHttp = checker (RespStatusCode rp);
                                              s = log (Checked (RespStatusCode rp)) (world s) s;
                                              (respData, errBodyUnmarshal) = unmarshaler (RespBody rp);
                                              s = log Unmarshaled (world s) s
                                          in if errHttp = None \<and> errBodyUnmarshal = None then
                                               (Ret (resp, respData, reqErr), s)
                                             else
                                               (let reqErr =
                                                      (if errHttp \<noteq> None then
                                                         reqErr\<lparr>HTTPError :=
                                                           Some \<lparr>StatusCode = RespStatusCode rp,
                                                                 Status = RespStatus rp,
                                                                 HErr = errHttp\<rparr>\<rparr>
                                                       else reqErr);
                                                    reqErr =
                                                      (if errBodyUnmarshal \<noteq> None then
                                                         reqErr\<lparr>RespBodyUnmarshalerError := errBodyUnmarshal\<rparr>
                                                       else reqErr);
                                                    reqErr = reqErr\<lparr>Err := Some
                                                      (Errorf [Lit ''cex: request, resty err: '', W errResty,
                                                               Lit '', http err: '', W errHttp,
                                                               Lit '', body unmarshal err: '',
                                                               W (Some (BodyErrPtr errBodyUnmarshal))])\<rparr>
                                                in (Ret (resp, respData, reqErr), s)))))))))))"

text \<open>
  \<^verbatim>\<open>Request\<close>: the loop \<^verbatim>\<open>for i := 0; i < 3; i++\<close> around one attempt \<open>attempt\<close>. \<open>cur\<close> holds
  \<^verbatim>\<open>resp, data, err\<close> as last assigned.
\<close>

function Request_loop ::
  "('w state \<Rightarrow> ('b, 'd) result run \<times> 'w state) \<Rightarrow> nat \<Rightarrow> ('b, 'd) result \<Rightarrow> 'w state \<Rightarrow>
   ('b, 'd) result run \<times> 'w state" where
  "Request_loop attempt i cur s =
     (if i < 3 then
        (case attempt s of
           (Panic, s') \<Rightarrow> (Panic, s')
         | (Ret r, s') \<Rightarrow>
             (case RequestError_Is (snd (snd r)) ErrInvalidTimestamp of
                Panic \<Rightarrow> (Panic, s')
              | Ret True \<Rightarrow> Request_loop attempt (i + 1) r s'
              | Ret False \<Rightarrow> (Ret r, s')))
      else (Ret cur, s))"
  by pat_completeness auto
termination
  by (relation "measure (\<lambda>(attempt, i, cur, s). 3 - i)") auto

declare Request_loop.simps [simp del]

definition zero_ReqBaseConfig :: ReqBaseConfig where
  "zero_ReqBaseConfig =
     \<lparr>BaseUrl = [], Path = [], Method = [], IsUserData = False, UserTimeInterval = 0,
      IpTimeInterval = 0\<rparr>"

definition zero_RequestError :: RequestError where
  "zero_RequestError =
     \<lparr>ReqBaseConfig = zero_ReqBaseConfig, HTTPError = None, RespBodyUnmarshalerError = None,
      Err = None\<rparr>"

definition Request ::
  "('p, 'o, 'q, 'w) ReqMaker \<Rightarrow> ('q, 'b, 'w) Transport \<Rightarrow> 'd \<Rightarrow> ('b, 'd) ReqConfig \<Rightarrow> 'p \<Rightarrow> 'o list \<Rightarrow>
   'w state \<Rightarrow> ('b, 'd) result run \<times> 'w state" where
  "Request reqMaker transport zero config reqData opts s =
     Request_loop (request reqMaker transport zero config reqData opts) 0
       (None, zero, zero_RequestError) s"

text \<open>
  Whether the loop goes on after an attempt, and what the call yields when it does not:
  the attempt's result, or a panic when the attempt or the test of its error panics.
\<close>

definition retries :: "('b, 'd) result run \<Rightarrow> bool" where
  "retries out =
     (case out of
        Panic \<Rightarrow> False
      | Ret r \<Rightarrow> RequestError_Is (snd (snd r)) ErrInvalidTimestamp = Ret True)"

definition yields :: "('b, 'd) result run \<Rightarrow> ('b, 'd) result run" where
  "yields out =
     (case out of
        Panic \<Rightarrow> Panic
      | Ret r \<Rightarrow>
          (case RequestError_Is (snd (snd r)) ErrInvalidTimestamp of
             Panic \<Rightarrow> Panic
           | Ret b \<Rightarrow> Ret r))"

text \<open>The structured error an attempt starts from: the endpoint and nothing else.\<close>

definition base_error :: "('b, 'd) ReqConfig \<Rightarrow> RequestError" where
  "base_error config =
     \<lparr>ReqBaseConfig = ReqBaseConfig.truncate config, HTTPError = None,
      RespBodyUnmarshalerError = None, Err = None\<rparr>"

definition attempts :: "'w state \<Rightarrow> nat" where
  "attempts s = length (filter (\<lambda>ev. ev = Made) (trace s))"

definition sends :: "'w state \<Rightarrow> nat" where
  "sends s = length (filter (\<lambda>ev. case ev of Sent m \<Rightarrow> True | _ \<Rightarrow> False) (trace s))"

section \<open>Facts about the encoding\<close>

lemma Encode_keys_single:
  assumes "\<forall>k\<in>set keys. \<exists>v. map_of val k = Some [v]"
  shows "Encode_keys val keys buf =
     (if keys = [] then buf
      else (if buf = [] then [] else buf @ ''&'') @
           join_amp (map (\<lambda>k. pair_text k (hd (index_val val k))) keys))"
  using assms
proof (induction keys arbitrary: buf)
  case Nil
  then show ?case by simp
next
  case (Cons k keys)
  from Cons.prems obtain v where v: "map_of val k = Some [v]" by auto
  have rest: "\<forall>k\<in>set keys. \<exists>v. map_of val k = Some [v]" using Cons.prems by simp
  show ?case
  proof (cases keys)
    case Nil
    then show ?thesis using v by (simp add: index_val_def pair_text_def)
  next
    case (Cons k' keys')
    then show ?thesis
      using v Cons.IH [OF rest] by (simp add: index_val_def pair_text_def)
  qed
qed

lemma map_insort_key: "map f (insort_key f x xs) = insort (f x) (map f xs)"
  by (induction xs) auto

lemma map_sort_key: "map f (sort_key f xs) = sort (map f xs)"
  by (induction xs) (simp_all add: map_insort_key)

lemma sort_key_fst_unique:
  assumes "distinct (map fst xs)" "distinct (map fst ys)" "set xs = set ys"
  shows "sort_key fst xs = sort_key fst ys"
proof (rule sort_key_eq_sort_key)
  have "distinct xs" "distinct ys" using assms(1,2) by (simp_all add: distinct_map)
  then show "mset xs = mset ys" using assms(3) by (simp add: set_eq_iff_mset_eq_distinct)
  show "inj_on fst (set xs)" using assms(1) by (simp add: distinct_map)
qed

lemma map_of_set_all:
  "distinct (map fst m) \<Longrightarrow> map_of (set_all m val) k =
     (case map_of m k of None \<Rightarrow> map_of val k | Some v \<Rightarrow> Some [v])"
proof (induction m arbitrary: val)
  case Nil
  then show ?case by simp
next
  case (Cons a m)
  obtain k' v' where a: "a = (k', v')" by (cases a)
  have d: "distinct (map fst m)" and nk: "k' \<notin> fst ` set m" using Cons.prems a by auto
  have none: "map_of m k' = None" using nk by (simp add: map_of_eq_None_iff)
  show ?case
    using Cons.IH [OF d, of "Set_val k' v' val"] a none
    by (auto simp: Set_val_def update_conv' split: option.splits)
qed

lemma distinct_set_all: "distinct (map fst val) \<Longrightarrow> distinct (map fst (set_all m val))"
  by (induction m arbitrary: val) (auto simp: Set_val_def distinct_update)

text \<open>\<open>Encode\<close> of values with distinct keys and one value per key.\<close>

lemma Encode_single_valued:
  assumes d: "distinct (map fst val)"
    and s: "\<forall>(k, vs)\<in>set val. \<exists>v. vs = [v]"
  shows "Encode val = canonical_query (map (\<lambda>(k, vs). (k, hd vs)) val)"
proof -
  let ?kvs = "map (\<lambda>(k, vs). (k, hd vs)) val"
  have fst_kvs: "map fst ?kvs = map fst val" by (simp add: case_prod_unfold)
  have look: "\<And>k vs. (k, vs) \<in> set val \<Longrightarrow> map_of val k = Some vs"
    using d by simp
  have single: "\<forall>k\<in>set (sort (map fst val)). \<exists>v. map_of val k = Some [v]"
    using s look by fastforce
  have enc: "Encode val = join_amp (map (\<lambda>k. pair_text k (hd (index_val val k))) (sort (map fst val)))"
    unfolding Encode_def using Encode_keys_single [OF single, of "[]"] by (cases val) auto
  have "map (\<lambda>(k, v). pair_text k v) (sort_key fst ?kvs) =
        map (\<lambda>k. pair_text k (hd (index_val val k))) (map fst (sort_key fst ?kvs))"
    unfolding map_map
  proof (rule map_cong [OF refl])
    fix x assume "x \<in> set (sort_key fst ?kvs)"
    then obtain k vs where x: "x = (k, hd vs)" and m: "(k, vs) \<in> set val" by auto
    show "(case x of (k, v) \<Rightarrow> pair_text k v) = ((\<lambda>k. pair_text k (hd (index_val val k))) \<circ> fst) x"
      using x look [OF m] by (simp add: index_val_def)
  qed
  then show ?thesis
    unfolding enc canonical_query_def pair_text_def map_sort_key fst_kvs by simp
qed

section \<open>Facts about the envelope\<close>

lemma fuBodyUnmshCodeMsg_None:
  "fuBodyUnmshCodeMsg tbl b = None \<longleftrightarrow> Code (envelope b) = 0 \<or> Code (envelope b) = 200"
  by (simp add: fuBodyUnmshCodeMsg_def envelope_def Let_def)


section \<open>Facts about kline rows\<close>

lemma distinct_klineMapKeys: "distinct klineMapKeys"
  by (simp add: klineMapKeys_def)

lemma length_klineMapKeys: "length klineMapKeys = 12"
  by (simp add: klineMapKeys_def)

lemma kline_range_eq:
  "kline_range i vs m = m ++ map_of (zip (drop i klineMapKeys) vs)"
proof (induction vs arbitrary: i m)
  case Nil
  then show ?case by simp
next
  case (Cons v vs)
  show ?case
  proof (cases "int i > klineLastIndex")
    case True
    then have "drop i klineMapKeys = []"
      by (simp add: klineLastIndex_def length_klineMapKeys)
    with True show ?thesis by simp
  next
    case False
    then have i: "i < length klineMapKeys"
      by (simp add: klineLastIndex_def length_klineMapKeys)
    have d: "drop i klineMapKeys = klineMapKeys ! i # drop (Suc i) klineMapKeys"
      using i by (simp add: Cons_nth_drop_Suc)
    have "distinct (drop i klineMapKeys)" using distinct_klineMapKeys by simp
    then have notin: "klineMapKeys ! i \<notin> set (drop (Suc i) klineMapKeys)"
      unfolding d by simp
    then have nd: "klineMapKeys ! i \<notin> dom (map_of (zip (drop (Suc i) klineMapKeys) vs))"
      by (auto dest: map_of_SomeD set_zip_leftD)
    have "kline_range i (v # vs) m =
        m(klineMapKeys ! i \<mapsto> v) ++ map_of (zip (drop (Suc i) klineMapKeys) vs)"
      using False by (simp only: kline_range.simps if_False Cons.IH)
    also have "\<dots> = m ++ map_of (zip (drop i klineMapKeys) (v # vs))"
      unfolding d using nd by (auto simp: map_add_def fun_eq_iff split: option.splits)
    finally show ?thesis .
  qed
qed

lemma kline_range_named_row: "kline_range 0 row Map.empty = named_row row"
  by (simp add: kline_range_eq named_row_def)

lemma named_row_take: "named_row (take 12 row) = named_row row"
proof -
  have "zip klineMapKeys (take 12 row) = zip (take 12 klineMapKeys) (take 12 row)"
    by (simp add: length_klineMapKeys)
  also have "\<dots> = take 12 (zip klineMapKeys row)"
    by (simp add: take_zip)
  also have "\<dots> = zip klineMapKeys row"
    by (simp add: length_klineMapKeys)
  finally show ?thesis by (simp add: named_row_def)
qed

lemma named_row_nth:
  assumes "i < 12" "i < length row"
  shows "named_row row (klineMapKeys ! i) = Some (row ! i)"
proof -
  have "i < length (zip klineMapKeys row)" using assms by (simp add: length_klineMapKeys)
  moreover have "distinct (map fst (zip klineMapKeys row))"
    using distinct_klineMapKeys by (simp add: map_fst_zip_take)
  ultimately have "map_of (zip klineMapKeys row) (fst (zip klineMapKeys row ! i)) =
      Some (snd (zip klineMapKeys row ! i))"
    by (metis map_of_eq_Some_iff nth_mem prod.collapse)
  then show ?thesis using assms by (simp add: named_row_def length_klineMapKeys)
qed

lemma dom_named_row: "dom (named_row row) = set (take (length row) klineMapKeys)"
proof -
  have "dom (named_row row) = set (map fst (zip klineMapKeys row))"
    by (simp add: named_row_def dom_map_of_conv_image_fst)
  also have "\<dots> = set (take (min (length klineMapKeys) (length row)) klineMapKeys)"
    by (simp only: map_fst_zip_take)
  also have "\<dots> = set (take (length row) klineMapKeys)"
    by (cases "length row \<le> length klineMapKeys") (simp_all add: min_def)
  finally show ?thesis .
qed

lemma klines_range_all:
  assumes "map (kline_of J) data = map Some ks"
  shows "klines_range J data acc = (acc @ ks, None)"
  using assms
proof (induction data arbitrary: acc ks)
  case Nil
  then show ?case by simp
next
  case (Cons row data)
  from Cons.prems obtain k ks' where ks: "ks = k # ks'" and k: "kline_of J row = Some k"
    and rest: "map (kline_of J) data = map Some ks'" by (cases ks) auto
  from k obtain t where "Marshal_map J (named_row row) = Inr t" "Unmarshal_Kline J t = Inr k"
    by (auto simp: kline_of_def split: sum.splits)
  then show ?case
    using Cons.IH [OF rest, of "acc @ [k]"] ks by (simp add: kline_range_named_row)
qed

lemma klines_range_take:
  "klines_range J (map (take 12) data) acc = klines_range J data acc"
  by (induction data arbitrary: acc)
    (simp_all add: kline_range_named_row named_row_take split: sum.splits)

section \<open>Facts about the executor\<close>

lemma Request_loop_unroll:
  "Request_loop attempt 0 cur s0 =
     (case attempt s0 of
        (o1, s1) \<Rightarrow>
          if \<not> retries o1 then (yields o1, s1)
          else (case attempt s1 of
             (o2, s2) \<Rightarrow>
               if \<not> retries o2 then (yields o2, s2)
               else (case attempt s2 of (o3, s3) \<Rightarrow> (yields o3, s3))))"
proof -
  have step: "Request_loop attempt i cur s =
      (case attempt s of
         (out, s') \<Rightarrow>
           if retries out then Request_loop attempt (Suc i) (case out of Ret r \<Rightarrow> r) s'
           else (yields out, s'))" if "i < 3" for i cur s
    using that
    by (subst Request_loop.simps)
      (auto simp: retries_def yields_def split: prod.splits run.splits bool.splits)
  have stop: "Request_loop attempt (Suc (Suc (Suc 0))) r s = (Ret r, s)" for r s
    by (subst Request_loop.simps) simp
  have last: "retries out \<Longrightarrow> Ret (case out of Ret r \<Rightarrow> r) = yields out"
    for out :: "('a, 'b) result run"
    by (auto simp: retries_def yields_def split: run.splits)
  obtain o1 s1 where a1: "attempt s0 = (o1, s1)" by (cases "attempt s0")
  obtain o2 s2 where a2: "attempt s1 = (o2, s2)" by (cases "attempt s1")
  obtain o3 s3 where a3: "attempt s2 = (o3, s3)" by (cases "attempt s2")
  have l1: "Request_loop attempt 0 cur s0 =
      (if retries o1 then Request_loop attempt (Suc 0) (case o1 of Ret r \<Rightarrow> r) s1
       else (yields o1, s1))"
    using step [of 0 cur s0] a1 by simp
  have l2: "Request_loop attempt (Suc 0) c s1 =
      (if retries o2 then Request_loop attempt (Suc (Suc 0)) (case o2 of Ret r \<Rightarrow> r) s2
       else (yields o2, s2))" for c
    using step [of "Suc 0" c s1] a2 by simp
  have l3: "Request_loop attempt (Suc (Suc 0)) c s2 =
      (if retries o3 then (yields o3, s3) else (yields o3, s3))" for c
    using step [of "Suc (Suc 0)" c s2] a3 by (simp add: stop last)
  show ?thesis
    by (simp add: l1 l2 l3 a1 a2 a3)
qed

lemma request_make_error:
  assumes "reqMaker (ReqBaseConfig.truncate config) reqData opts (world s) = ((req, Some e), w)"
  shows "request reqMaker transport zero config reqData opts s =
     (Ret (None, zero, SetErr (base_error config) (Errorf [Lit ''cex: make request, '', W (Some e)])),
      log Made w s)"
  using assms by (simp add: request_def base_error_def Let_def)

lemma request_bad_method:
  assumes "reqMaker (ReqBaseConfig.truncate config) reqData opts (world s) = ((req, None), w)"
    and "Method config \<notin> {''GET'', ''POST'', ''PUT'', ''DELETE''}"
  shows "request reqMaker transport zero config reqData opts s =
     (Ret (None, zero,
        SetErr (base_error config)
          (Errorf [Lit (''cex: http method '' @ Method config @ '' is not supported'')])),
      log Made w s)"
  using assms by (simp add: request_def base_error_def Let_def)

lemma request_nil_request:
  assumes "reqMaker (ReqBaseConfig.truncate config) reqData opts (world s) = ((None, None), w)"
    and "Method config \<in> {''GET'', ''POST'', ''PUT'', ''DELETE''}"
  shows "request reqMaker transport zero config reqData opts s = (Panic, log Made w s)"
  using assms by (simp add: request_def base_error_def Let_def)

lemma request_transport_error:
  assumes "reqMaker (ReqBaseConfig.truncate config) reqData opts (world s) = ((Some r, None), w)"
    and "Method config \<in> {''GET'', ''POST'', ''PUT'', ''DELETE''}"
    and "transport (Method config) r w = ((None, Some e), w')"
  shows "request reqMaker transport zero config reqData opts s =
     (Ret (None, zero, SetErr (base_error config) (Errorf [Lit ''cex: request err: '', W (Some e)])),
      log (Sent (Method config)) w' (log Made w s))"
  using assms by (simp add: request_def base_error_def Let_def log_def)

lemma request_no_response_no_error:
  assumes "reqMaker (ReqBaseConfig.truncate config) reqData opts (world s) = ((Some r, None), w)"
    and "Method config \<in> {''GET'', ''POST'', ''PUT'', ''DELETE''}"
    and "transport (Method config) r w = ((None, None), w')"
  shows "request reqMaker transport zero config reqData opts s =
     (Ret (None, zero,
        SetErr (base_error config)
          (Errorf [Lit ''cex: resp and err are all nil, resty may have bugs''])),
      log (Sent (Method config)) w' (log Made w s))"
  using assms by (simp add: request_def base_error_def Let_def log_def)


lemma request_nil_checker:
  assumes "reqMaker (ReqBaseConfig.truncate config) reqData opts (world s) = ((Some r, None), w)"
    and "Method config \<in> {''GET'', ''POST'', ''PUT'', ''DELETE''}"
    and "transport (Method config) r w = ((Some rp, errResty), w')"
    and "HTTPStatusCodeChecker config = None"
  shows "snd (request reqMaker transport zero config reqData opts s) =
     log (Sent (Method config)) w' (log Made w s)"
  using assms by (simp add: request_def base_error_def Let_def log_def)

lemma request_nil_unmarshaler:
  assumes "reqMaker (ReqBaseConfig.truncate config) reqData opts (world s) = ((Some r, None), w)"
    and "Method config \<in> {''GET'', ''POST'', ''PUT'', ''DELETE''}"
    and "transport (Method config) r w = ((Some rp, errResty), w')"
    and "HTTPStatusCodeChecker config = Some checker"
    and "RespBodyUnmarshaler config = None"
  shows "snd (request reqMaker transport zero config reqData opts s) =
     log (Sent (Method config)) w' (log Made w s)"
  using assms by (simp add: request_def base_error_def Let_def log_def)

lemma request_response:
  assumes "reqMaker (ReqBaseConfig.truncate config) reqData opts (world s) = ((Some r, None), w)"
    and "Method config \<in> {''GET'', ''POST'', ''PUT'', ''DELETE''}"
    and "transport (Method config) r w = ((Some rp, errResty), w')"
    and "HTTPStatusCodeChecker config = Some checker"
    and "RespBodyUnmarshaler config = Some unmarshaler"
  shows "request reqMaker transport zero config reqData opts s =
     (Ret (Some rp, fst (unmarshaler (RespBody rp)),
        (if checker (RespStatusCode rp) = None \<and> snd (unmarshaler (RespBody rp)) = None
         then base_error config
         else \<lparr>ReqBaseConfig = ReqBaseConfig.truncate config,
               HTTPError =
                 (case checker (RespStatusCode rp) of
                    None \<Rightarrow> None
                  | Some e \<Rightarrow>
                      Some \<lparr>StatusCode = RespStatusCode rp, Status = RespStatus rp, HErr = Some e\<rparr>),
               RespBodyUnmarshalerError = snd (unmarshaler (RespBody rp)),
               Err = Some
                 (Errorf [Lit ''cex: request, resty err: '', W errResty,
                          Lit '', http err: '', W (checker (RespStatusCode rp)),
                          Lit '', body unmarshal err: '',
                          W (Some (BodyErrPtr (snd (unmarshaler (RespBody rp)))))])\<rparr>)),
      \<lparr>world = w',
       trace = trace s @ [Made, Sent (Method config), Checked (RespStatusCode rp), Unmarshaled]\<rparr>)"
proof -
  obtain d eb where u: "unmarshaler (RespBody rp) = (d, eb)" by (cases "unmarshaler (RespBody rp)")
  show ?thesis
  proof (cases "checker (RespStatusCode rp)")
    case None
    then show ?thesis
      using assms u by (cases eb) (simp_all add: request_def base_error_def Let_def log_def)
  next
    case (Some eh)
    then show ?thesis
      using assms u by (cases eb) (simp_all add: request_def base_error_def Let_def log_def)
  qed
qed

lemma request_trace:
  "\<exists>w' evs. snd (request reqMaker transport zero config reqData opts s) =
      \<lparr>world = w', trace = trace s @ Made # evs\<rparr> \<and>
      (evs = [] \<or> evs = [Sent (Method config)] \<or>
       (\<exists>c. evs = [Sent (Method config), Checked c, Unmarshaled]))"
proof -
  obtain req err w where mk:
    "reqMaker (ReqBaseConfig.truncate config) reqData opts (world s) = ((req, err), w)"
    by (metis prod.exhaust)
  show ?thesis
  proof (cases err)
    case (Some e)
    then show ?thesis using request_make_error [of reqMaker config reqData opts s req e w transport zero] mk
      by (simp add: log_def)
  next
    case None
    note err = this
    show ?thesis
    proof (cases "Method config \<in> {''GET'', ''POST'', ''PUT'', ''DELETE''}")
      case False
      then show ?thesis
        using request_bad_method [of reqMaker config reqData opts s req w transport zero] mk err
        by (simp add: log_def)
    next
      case True
      note meth = this
      show ?thesis
      proof (cases req)
        case None
        then show ?thesis
          using request_nil_request [of reqMaker config reqData opts s w transport zero] mk err meth
          by (simp add: log_def)
      next
        case (Some r)
        note mk' = mk [unfolded err Some]
        obtain resp te w' where tr: "transport (Method config) r w = ((resp, te), w')"
          by (metis prod.exhaust)
        show ?thesis
        proof (cases resp)
          case None
          show ?thesis
          proof (cases te)
            case None
            then show ?thesis
              using request_no_response_no_error
                [where reqMaker = reqMaker and transport = transport and config = config and reqData = reqData and opts = opts and s = s and zero = zero,
                 OF mk' meth tr [unfolded \<open>resp = None\<close> None]]
              by (simp add: log_def)
          next
            case (Some e)
            then show ?thesis
              using request_transport_error
                [where reqMaker = reqMaker and transport = transport and config = config and reqData = reqData and opts = opts and s = s and zero = zero,
                 OF mk' meth tr [unfolded \<open>resp = None\<close> Some]]
              by (simp add: log_def)
          qed
        next
          case (Some rp)
          note tr' = tr [unfolded Some]
          show ?thesis
          proof (cases "HTTPStatusCodeChecker config")
            case None
            then show ?thesis
              using request_nil_checker
                [where reqMaker = reqMaker and transport = transport and config = config and reqData = reqData and opts = opts and s = s and zero = zero,
                 OF mk' meth tr' None] by (simp add: log_def)
          next
            case (Some checker)
            note chk = this
            show ?thesis
            proof (cases "RespBodyUnmarshaler config")
              case None
              then show ?thesis
                using request_nil_unmarshaler
                [where reqMaker = reqMaker and transport = transport and config = config and reqData = reqData and opts = opts and s = s and zero = zero,
                 OF mk' meth tr' chk None]
                by (simp add: log_def)
            next
              case (Some unmarshaler)
              then show ?thesis
                using request_response
                [where reqMaker = reqMaker and transport = transport and config = config and reqData = reqData and opts = opts and s = s and zero = zero,
                 OF mk' meth tr' chk Some] by simp
            qed
          qed
        qed
      qed
    qed
  qed
qed

lemma request_attempts:
  "attempts (snd (request reqMaker transport zero config reqData opts s)) = Suc (attempts s)"
  using request_trace [of reqMaker transport zero config reqData opts s]
  by (auto simp: attempts_def)

lemma request_sends:
  "sends (snd (request reqMaker transport zero config reqData opts s)) \<le> Suc (sends s)"
  using request_trace [of reqMaker transport zero config reqData opts s]
  by (auto simp: sends_def)

lemma Request_single:
  assumes "request reqMaker transport zero config reqData opts s = (Ret r, s')"
    and "RequestError_Is (snd (snd r)) ErrInvalidTimestamp = Ret False"
  shows "Request reqMaker transport zero config reqData opts s = (Ret r, s')"
  using assms by (simp add: Request_def Request_loop_unroll retries_def yields_def)

lemma retries_yields: "retries out \<Longrightarrow> yields out = out"
  by (auto simp: retries_def yields_def split: run.splits)

text \<open>
  The loop over the attempts: the call is the unrolling over three attempts, each made in
  the state the one before left; it goes on exactly after an attempt whose error matches
  \<^verbatim>\<open>cex.ErrInvalidTimestamp\<close>, makes at least one and at most three attempts, and after three
  such errors returns the third attempt's result.
\<close>

lemma Request_retry_bound:
  "Request reqMaker transport zero config reqData opts s =
     (case request reqMaker transport zero config reqData opts s of
        (o1, s1) \<Rightarrow>
          if \<not> retries o1 then (yields o1, s1)
          else (case request reqMaker transport zero config reqData opts s1 of
             (o2, s2) \<Rightarrow>
               if \<not> retries o2 then (yields o2, s2)
               else (case request reqMaker transport zero config reqData opts s2 of
                  (o3, s3) \<Rightarrow> (yields o3, s3)))) \<and>
   (\<forall>o1 s1 o2 s2 o3 s3.
      request reqMaker transport zero config reqData opts s = (o1, s1) \<and> retries o1 \<and>
      request reqMaker transport zero config reqData opts s1 = (o2, s2) \<and> retries o2 \<and>
      request reqMaker transport zero config reqData opts s2 = (o3, s3) \<and> retries o3 \<longrightarrow>
      Request reqMaker transport zero config reqData opts s = (o3, s3) \<and>
      attempts s3 = attempts s + 3) \<and>
   attempts s < attempts (snd (Request reqMaker transport zero config reqData opts s)) \<and>
   attempts (snd (Request reqMaker transport zero config reqData opts s)) \<le> attempts s + 3 \<and>
   sends (snd (Request reqMaker transport zero config reqData opts s)) \<le> sends s + 3"
proof -
  let ?att = "request reqMaker transport zero config reqData opts"
  obtain o1 s1 where a1: "?att s = (o1, s1)" by (cases "?att s")
  obtain o2 s2 where a2: "?att s1 = (o2, s2)" by (cases "?att s1")
  obtain o3 s3 where a3: "?att s2 = (o3, s3)" by (cases "?att s2")
  have n1: "attempts s1 = Suc (attempts s)"
    using request_attempts [of reqMaker transport zero config reqData opts s] a1 by simp
  have n2: "attempts s2 = Suc (attempts s1)"
    using request_attempts [of reqMaker transport zero config reqData opts s1] a2 by simp
  have n3: "attempts s3 = Suc (attempts s2)"
    using request_attempts [of reqMaker transport zero config reqData opts s2] a3 by simp
  have m1: "sends s1 \<le> Suc (sends s)"
    using request_sends [of reqMaker transport zero config reqData opts s] a1 by simp
  have m2: "sends s2 \<le> Suc (sends s1)"
    using request_sends [of reqMaker transport zero config reqData opts s1] a2 by simp
  have m3: "sends s3 \<le> Suc (sends s2)"
    using request_sends [of reqMaker transport zero config reqData opts s2] a3 by simp
  have eq: "Request reqMaker transport zero config reqData opts s =
      (case ?att s of
         (o1, s1) \<Rightarrow>
           if \<not> retries o1 then (yields o1, s1)
           else (case ?att s1 of
              (o2, s2) \<Rightarrow>
                if \<not> retries o2 then (yields o2, s2)
                else (case ?att s2 of (o3, s3) \<Rightarrow> (yields o3, s3))))"
    unfolding Request_def by (rule Request_loop_unroll)
  have fin: "snd (Request reqMaker transport zero config reqData opts s) =
      (if \<not> retries o1 then s1 else if \<not> retries o2 then s2 else s3)"
    by (simp add: eq a1 a2 a3)
  have all: "Request reqMaker transport zero config reqData opts s = (o3, s3)"
    if "retries o1" "retries o2" "retries o3"
    using that by (simp add: eq a1 a2 a3 retries_yields)
  show ?thesis
  proof (intro conjI allI impI)
    show "Request reqMaker transport zero config reqData opts s =
      (case ?att s of
         (o1, s1) \<Rightarrow>
           if \<not> retries o1 then (yields o1, s1)
           else (case ?att s1 of
              (o2, s2) \<Rightarrow>
                if \<not> retries o2 then (yields o2, s2)
                else (case ?att s2 of (o3, s3) \<Rightarrow> (yields o3, s3))))"
      by (rule eq)
  next
    fix p1 t1 p2 t2 p3 t3
    assume h: "?att s = (p1, t1) \<and> retries p1 \<and> ?att t1 = (p2, t2) \<and> retries p2 \<and>
      ?att t2 = (p3, t3) \<and> retries p3"
    then have "p1 = o1" "t1 = s1" using a1 by simp_all
    moreover from this h have "p2 = o2" "t2 = s2" using a2 by simp_all
    moreover from this h have "p3 = o3" "t3 = s3" using a3 by simp_all
    ultimately show "Request reqMaker transport zero config reqData opts s = (p3, t3)"
      and "attempts t3 = attempts s + 3"
      using h all n1 n2 n3 by simp_all
  next
    show "attempts s < attempts (snd (Request reqMaker transport zero config reqData opts s))"
      unfolding fin using n1 n2 n3 by simp
    show "attempts (snd (Request reqMaker transport zero config reqData opts s)) \<le> attempts s + 3"
      unfolding fin using n1 n2 n3 by simp
    show "sends (snd (Request reqMaker transport zero config reqData opts s)) \<le> sends s + 3"
      unfolding fin using m1 m2 m3 by simp
  qed
qed

text \<open>
  Three attempts that each end in a body error wrapping \<^verbatim>\<open>cex.ErrInvalidTimestamp\<close>: the call
  returns the third attempt's result after three attempts.
\<close>

lemma Request_three_attempts_example:
  "let att = request (\<lambda>cfg (d::unit) (opts::unit list) (w::unit). ((Some (), None), w))
         (\<lambda>m r w. ((Some \<lparr>RespStatusCode = 400, RespStatus = ''400 Bad Request'',
                             RespBody = ''late''\<rparr>, None), w)) ()
         \<lparr>BaseUrl = ''https://fapi.binance.com'', Path = ''/fapi/v1/order'', Method = ''GET'',
          IsUserData = True, UserTimeInterval = 0, IpTimeInterval = 0,
          HTTPStatusCodeChecker = Some (\<lambda>code::int. None),
          RespBodyUnmarshaler =
            Some (\<lambda>b::string. ((), Some (MkBodyErr (- 1021) b
                    (Some (Wrapped ''bnc: ErrInvalidTimestamp'' [Sentinel ErrInvalidTimestamp])))))\<rparr>
         () [];
       ev = [Made, Sent ''GET'', Checked 400, Unmarshaled]
   in retries (fst (att \<lparr>world = (), trace = []\<rparr>)) \<and>
      snd (att \<lparr>world = (), trace = []\<rparr>) = \<lparr>world = (), trace = ev\<rparr> \<and>
      retries (fst (att \<lparr>world = (), trace = ev\<rparr>)) \<and>
      snd (att \<lparr>world = (), trace = ev\<rparr>) = \<lparr>world = (), trace = ev @ ev\<rparr> \<and>
      retries (fst (att \<lparr>world = (), trace = ev @ ev\<rparr>)) \<and>
      Request (\<lambda>cfg (d::unit) (opts::unit list) (w::unit). ((Some (), None), w))
         (\<lambda>m r w. ((Some \<lparr>RespStatusCode = 400, RespStatus = ''400 Bad Request'',
                             RespBody = ''late''\<rparr>, None), w)) ()
         \<lparr>BaseUrl = ''https://fapi.binance.com'', Path = ''/fapi/v1/order'', Method = ''GET'',
          IsUserData = True, UserTimeInterval = 0, IpTimeInterval = 0,
          HTTPStatusCodeChecker = Some (\<lambda>code::int. None),
          RespBodyUnmarshaler =
            Some (\<lambda>b::string. ((), Some (MkBodyErr (- 1021) b
                    (Some (Wrapped ''bnc: ErrInvalidTimestamp'' [Sentinel ErrInvalidTimestamp])))))\<rparr>
         () [] \<lparr>world = (), trace = []\<rparr> =
        att \<lparr>world = (), trace = ev @ ev\<rparr> \<and>
      snd (att \<lparr>world = (), trace = ev @ ev\<rparr>) = \<lparr>world = (), trace = ev @ ev @ ev\<rparr> \<and>
      attempts \<lparr>world = (), trace = ev @ ev @ ev\<rparr> = 3"
proof -
  let ?mk = "\<lambda>cfg (d::unit) (opts::unit list) (w::unit). ((Some (), None :: err option), w)"
  let ?rp = "\<lparr>RespStatusCode = 400, RespStatus = ''400 Bad Request'', RespBody = ''late''\<rparr>"
  let ?tr = "\<lambda>(m::string) (r::unit) (w::unit). ((Some ?rp, None :: err option), w)"
  let ?chk = "\<lambda>code::int. None :: err option"
  let ?unm = "\<lambda>b::string. ((), Some (MkBodyErr (- 1021) b
      (Some (Wrapped ''bnc: ErrInvalidTimestamp'' [Sentinel ErrInvalidTimestamp]))))"
  let ?cfg = "\<lparr>BaseUrl = ''https://fapi.binance.com'', Path = ''/fapi/v1/order'', Method = ''GET'',
      IsUserData = True, UserTimeInterval = 0, IpTimeInterval = 0,
      HTTPStatusCodeChecker = Some ?chk, RespBodyUnmarshaler = Some ?unm\<rparr>"
  let ?att = "request ?mk ?tr () ?cfg () []"
  let ?ev = "[Made, Sent ''GET'', Checked 400, Unmarshaled]"
  have att: "\<exists>r. ?att s = (Ret r, \<lparr>world = (), trace = trace s @ ?ev\<rparr>) \<and>
      RequestError_Is (snd (snd r)) ErrInvalidTimestamp = Ret True" for s :: "unit state"
    unfolding request_response
      [where reqMaker = ?mk and transport = ?tr and zero = "()" and config = ?cfg
         and reqData = "()" and opts = "[]" and s = s and r = "()" and w = "()" and w' = "()"
         and rp = ?rp and errResty = None and checker = ?chk and unmarshaler = ?unm,
       simplified]
    by (simp add: RequestError_Is_def Errorf_def ErrInvalidTimestamp_def)
  have r: "retries (fst (?att s))" and t: "snd (?att s) = \<lparr>world = (), trace = trace s @ ?ev\<rparr>"
    for s :: "unit state"
    using att [of s] by (auto simp: retries_def)
  let ?s0 = "\<lparr>world = (), trace = []\<rparr> :: unit state"
  let ?s1 = "\<lparr>world = (), trace = ?ev\<rparr> :: unit state"
  let ?s2 = "\<lparr>world = (), trace = ?ev @ ?ev\<rparr> :: unit state"
  let ?s3 = "\<lparr>world = (), trace = ?ev @ ?ev @ ?ev\<rparr> :: unit state"
  have e0: "?att ?s0 = (fst (?att ?s0), ?s1)" using t [of ?s0] by (simp add: prod_eq_iff)
  have e1: "?att ?s1 = (fst (?att ?s1), ?s2)" using t [of ?s1] by (simp add: prod_eq_iff)
  have e2: "?att ?s2 = (fst (?att ?s2), ?s3)" using t [of ?s2] by (simp add: prod_eq_iff)
  have "Request ?mk ?tr () ?cfg () [] ?s0 = (fst (?att ?s2), ?s3) \<and>
      attempts ?s3 = attempts ?s0 + 3"
    using Request_retry_bound
      [where reqMaker = ?mk and transport = ?tr and zero = "()" and config = ?cfg
         and reqData = "()" and opts = "[]" and s = ?s0]
      e0 e1 e2 r [of ?s0] r [of ?s1] r [of ?s2]
    by blast
  then show ?thesis
    unfolding Let_def using r [of ?s0] r [of ?s1] r [of ?s2] t [of ?s0] t [of ?s1] t [of ?s2] e2
    by (simp add: attempts_def)
qed

lemma errors_Is_list_append_False:
  "errors_Is_list es t = Ret False \<Longrightarrow> errors_Is_list (es @ fs) t = errors_Is_list fs t"
  by (induction es) (auto split: run.splits bool.splits)

section \<open>Properties\<close>

text \<open>
  C1 (as amended). When the parameters serialize to a map \<open>m\<close>, \<^verbatim>\<open>signReqData\<close> returns the
  canonical encoding of the parameters, followed by \<^verbatim>\<open>&signature=\<close> and the signer's result
  on that encoding under the key. The injected \<^verbatim>\<open>timestamp\<close> is among the encoded pairs when
  no parameter is named \<^verbatim>\<open>timestamp\<close>; a parameter of that name replaces it.
\<close>

theorem signReqData_query:
  assumes ok: "toStrMap data = Inr m" and d: "distinct (map fst m)"
  shows "signReqData toStrMap mac now data key =
     Inr (canonical_query (if ''timestamp'' \<in> fst ` set m then m else (''timestamp'', FormatInt now) # m)
          @ ''&signature='' @
          mac (canonical_query (if ''timestamp'' \<in> fst ` set m then m else (''timestamp'', FormatInt now) # m)) key)"
proof -
  let ?val = "set_all m [(''timestamp'', [FormatInt now])]"
  let ?tgt = "if ''timestamp'' \<in> fst ` set m then m else (''timestamp'', FormatInt now) # m"
  let ?kvs = "map (\<lambda>(k, vs). (k, hd vs)) ?val"
  have dv: "distinct (map fst ?val)" by (rule distinct_set_all) simp
  have mo: "\<And>k. map_of ?val k =
      (case map_of m k of None \<Rightarrow> map_of [(''timestamp'', [FormatInt now])] k | Some v \<Rightarrow> Some [v])"
    by (rule map_of_set_all [OF d])
  have sv: "\<forall>(k, vs)\<in>set ?val. \<exists>v. vs = [v]"
  proof clarify
    fix k vs assume "(k, vs) \<in> set ?val"
    then have "map_of ?val k = Some vs" using dv by simp
    then show "\<exists>v. vs = [v]" unfolding mo by (auto split: option.splits if_splits)
  qed
  have enc: "Encode ?val = canonical_query ?kvs" by (rule Encode_single_valued [OF dv sv])
  have dk: "distinct (map fst ?kvs)" using dv by (simp add: case_prod_unfold comp_def)
  have dt: "distinct (map fst ?tgt)" using d by auto
  have mot: "map_of ?tgt k = Some v \<longleftrightarrow> map_of ?val k = Some [v]" for k v
  proof (cases "map_of m ''timestamp''")
    case None
    then have "''timestamp'' \<notin> fst ` set m" by (simp add: map_of_eq_None_iff)
    then show ?thesis unfolding mo using None by (auto split: option.splits)
  next
    case (Some w)
    then have "''timestamp'' \<in> fst ` set m" by (metis map_of_eq_None_iff option.distinct(1))
    then show ?thesis unfolding mo using Some by (auto split: option.splits)
  qed
  have "set ?kvs = set ?tgt"
  proof (rule set_eqI)
    fix x :: "string \<times> string"
    obtain k v where x: "x = (k, v)" by (cases x)
    have "x \<in> set ?kvs \<longleftrightarrow> map_of ?val k = Some [v]"
    proof
      assume "x \<in> set ?kvs"
      then obtain vs where m: "(k, vs) \<in> set ?val" and h: "v = hd vs" using x by auto
      from m sv obtain w where "vs = [w]" by blast
      then show "map_of ?val k = Some [v]" using m h dv by simp
    next
      assume "map_of ?val k = Some [v]"
      then have "(k, [v]) \<in> set ?val" by (rule map_of_SomeD)
      then show "x \<in> set ?kvs" unfolding x by force
    qed
    also have "\<dots> \<longleftrightarrow> map_of ?tgt k = Some v" by (rule mot [symmetric])
    also have "\<dots> \<longleftrightarrow> x \<in> set ?tgt" unfolding x using dt by (rule map_of_eq_Some_iff)
    finally show "x \<in> set ?kvs \<longleftrightarrow> x \<in> set ?tgt" .
  qed
  then have "canonical_query ?kvs = canonical_query ?tgt"
    unfolding canonical_query_def using sort_key_fst_unique [OF dk dt] by simp
  then show ?thesis
    unfolding signReqData_def using ok enc by (simp add: Let_def)
qed

text \<open>
  The example of the specification: \<^verbatim>\<open>{"symbol":"ETHUSDT"}\<close>, key \<^verbatim>\<open>"k"\<close>, at the clock value
  1700000000000, for every signer.
\<close>

theorem signReqData_query_witness:
  "distinct (map fst [(''symbol'', ''ETHUSDT'')]) \<and>
   (\<forall>mac. signReqData Inr mac 1700000000000 [(''symbol'', ''ETHUSDT'')] ''k'' =
      Inr (''symbol=ETHUSDT&timestamp=1700000000000&signature='' @
           mac ''symbol=ETHUSDT&timestamp=1700000000000'' ''k''))"
proof (intro conjI allI)
  show d: "distinct (map fst [(''symbol'', ''ETHUSDT'')])" by simp
  fix mac :: "string \<Rightarrow> string \<Rightarrow> string"
  have ts: "FormatInt 1700000000000 = ''1700000000000''"
    by (simp add: FormatInt_def FormatUint.simps digit_def)
  have q: "canonical_query [(''timestamp'', ''1700000000000''), (''symbol'', ''ETHUSDT'')] =
      ''symbol=ETHUSDT&timestamp=1700000000000''"
    by (simp add: canonical_query_def QueryEscape_def escape_byte_def shouldEscape_def
        less_eq_char_def)
  show "signReqData Inr mac 1700000000000 [(''symbol'', ''ETHUSDT'')] ''k'' =
      Inr (''symbol=ETHUSDT&timestamp=1700000000000&signature='' @
           mac ''symbol=ETHUSDT&timestamp=1700000000000'' ''k'')"
    using signReqData_query [of Inr "[(''symbol'', ''ETHUSDT'')]" "[(''symbol'', ''ETHUSDT'')]"
        mac 1700000000000 "''k''", OF refl d]
    by (simp add: ts q)
qed

text \<open>
  The claim as stated fails for parameters that carry a \<^verbatim>\<open>timestamp\<close> of their own: the loop
  over the map overwrites the injected value, which then is no part of the query.
\<close>

theorem signReqData_timestamp_counterexample:
  "\<forall>mac. signReqData Inr mac 1700000000000 [(''timestamp'', ''5'')] ''k'' =
      Inr (''timestamp=5&signature='' @ mac ''timestamp=5'' ''k'')"
  by (simp add: signReqData_def Set_val_def Encode_def index_val_def QueryEscape_def
      escape_byte_def shouldEscape_def less_eq_char_def)

text \<open>
  C2. For an endpoint that needs no authentication and parameters that serialize,
  \<^verbatim>\<open>Make\<close> builds the request and then returns neither a request nor an error: the last
  statement of \<^verbatim>\<open>makePublicReq\<close> is \<^verbatim>\<open>return nil, nil\<close>, where \<^verbatim>\<open>makePrivateReq\<close> returns
  the request it built.
\<close>

theorem Make_public_returns_nil:
  "\<not> IsUserData config \<Longrightarrow> ToStrMap u reqData = Inr m \<Longrightarrow>
   Make u now config reqData opts = (None, None)"
  by (simp add: Make_def makePublicReq_def)

theorem Make_public_returns_nil_witness:
  "\<not> IsUserData \<lparr>BaseUrl = ''https://api.binance.com'', Path = ''/api/v3/depth'', Method = ''GET'',
      IsUserData = False, UserTimeInterval = 0, IpTimeInterval = 0\<rparr> \<and>
   ToStrMap \<lparr>api = \<lparr>ApiKey = ''a'', SecretKey = ''k'', Passphrase = [], signer = None\<rparr>,
      ToStrMap = Inr, SignByHmacSHA256ToHex = (\<lambda>payload key. [])\<rparr> [(''symbol'', ''ETHUSDT'')] =
     Inr [(''symbol'', ''ETHUSDT'')] \<and>
   Make \<lparr>api = \<lparr>ApiKey = ''a'', SecretKey = ''k'', Passphrase = [], signer = None\<rparr>,
      ToStrMap = Inr, SignByHmacSHA256ToHex = (\<lambda>payload key. [])\<rparr> 1700000000000
     \<lparr>BaseUrl = ''https://api.binance.com'', Path = ''/api/v3/depth'', Method = ''GET'',
      IsUserData = False, UserTimeInterval = 0, IpTimeInterval = 0\<rparr>
     [(''symbol'', ''ETHUSDT'')] [] = (None, None)"
  using Make_public_returns_nil
    [of "\<lparr>BaseUrl = ''https://api.binance.com'', Path = ''/api/v3/depth'', Method = ''GET'',
          IsUserData = False, UserTimeInterval = 0, IpTimeInterval = 0\<rparr>"
        "\<lparr>api = \<lparr>ApiKey = ''a'', SecretKey = ''k'', Passphrase = [], signer = None\<rparr>,
          ToStrMap = Inr, SignByHmacSHA256ToHex = (\<lambda>payload key. [])\<rparr>"
        "[(''symbol'', ''ETHUSDT'')]" "[(''symbol'', ''ETHUSDT'')]" 1700000000000 "[]"]
  by simp


text \<open>
  C3. The loop makes at most three attempts and goes on only after an error that matches
  \<^verbatim>\<open>cex.ErrInvalidTimestamp\<close> (\<open>Request_retry_bound\<close>). But an attempt that ends in another
  error does not always end the call with that error. When the status classifier reports
  an error that does not match and the body decoder reports none, \<^verbatim>\<open>request\<close> has wrapped the
  nil \<^verbatim>\<open>*RespBodyUnmarshalerError\<close> with \<^verbatim>\<open>%w\<close>; the test \<^verbatim>\<open>err.Is(ErrInvalidTimestamp)\<close> walks
  past the status error to that pointer and calls its \<^verbatim>\<open>Is\<close> method, which dereferences it.
  The call panics after the first attempt and returns nothing.
\<close>

theorem Request_panics_on_status_error_alone:
  assumes mk: "reqMaker (ReqBaseConfig.truncate config) reqData opts (world s) = ((Some r, None), w)"
    and meth: "Method config \<in> {''GET'', ''POST'', ''PUT'', ''DELETE''}"
    and tr: "transport (Method config) r w = ((Some rp, errResty), w')"
    and chk: "HTTPStatusCodeChecker config = Some checker"
    and unm: "RespBodyUnmarshaler config = Some unmarshaler"
    and resty: "errResty = None \<or> (\<exists>e. errResty = Some e \<and> errors_Is e ErrInvalidTimestamp = Ret False)"
    and http: "checker (RespStatusCode rp) = Some eh"
    and other: "errors_Is eh ErrInvalidTimestamp = Ret False"
    and body: "snd (unmarshaler (RespBody rp)) = None"
  shows "Request reqMaker transport zero config reqData opts s =
     (Panic,
      \<lparr>world = w',
       trace = trace s @ [Made, Sent (Method config), Checked (RespStatusCode rp), Unmarshaled]\<rparr>)"
proof -
  let ?e = "Errorf [Lit ''cex: request, resty err: '', W errResty, Lit '', http err: '',
      W (checker (RespStatusCode rp)), Lit '', body unmarshal err: '',
      W (Some (BodyErrPtr (snd (unmarshaler (RespBody rp)))))]"
  let ?E = "\<lparr>ReqBaseConfig = ReqBaseConfig.truncate config,
      HTTPError = Some \<lparr>StatusCode = RespStatusCode rp, Status = RespStatus rp, HErr = Some eh\<rparr>,
      RespBodyUnmarshalerError = None, Err = Some ?e\<rparr>"
  let ?s' = "\<lparr>world = w',
      trace = trace s @ [Made, Sent (Method config), Checked (RespStatusCode rp), Unmarshaled]\<rparr>"
  have att: "request reqMaker transport zero config reqData opts s =
      (Ret (Some rp, fst (unmarshaler (RespBody rp)), ?E), ?s')"
    unfolding request_response
        [where reqMaker = reqMaker and transport = transport and config = config
           and reqData = reqData and opts = opts and s = s and zero = zero,
         OF mk meth tr chk unm]
    using http body by simp
  have pre: "errors_Is_list (piece_errs (W errResty)) ErrInvalidTimestamp = Ret False"
    using resty by auto
  have "errors_Is ?e ErrInvalidTimestamp =
      errors_Is_list (piece_errs (W errResty) @ [eh, BodyErrPtr None]) ErrInvalidTimestamp"
    using http body by (simp add: Errorf_def)
  also have "\<dots> = errors_Is_list [eh, BodyErrPtr None] ErrInvalidTimestamp"
    using pre by (rule errors_Is_list_append_False)
  also have "\<dots> = Panic" using other by simp
  finally have "RequestError_Is ?E ErrInvalidTimestamp = Panic"
    by (simp add: RequestError_Is_def)
  then show ?thesis
    unfolding Request_def Request_loop_unroll att
    by (simp add: retries_def yields_def)
qed

theorem Request_panics_on_status_error_alone_witness:
  "Method \<lparr>BaseUrl = ''https://fapi.binance.com'', Path = ''/fapi/v1/order'', Method = ''GET'',
      IsUserData = True, UserTimeInterval = 0, IpTimeInterval = 0,
      HTTPStatusCodeChecker =
        Some (\<lambda>code::int. if code = 200 then None else Some (External ''bad status'')),
      RespBodyUnmarshaler = Some (\<lambda>b::string. (b, None))\<rparr>
     \<in> {''GET'', ''POST'', ''PUT'', ''DELETE''} \<and>
   errors_Is (External ''bad status'') ErrInvalidTimestamp = Ret False \<and>
   Request (\<lambda>cfg (d::unit) (opts::unit list) (w::unit). ((Some (), None), w))
     (\<lambda>m r w. ((Some \<lparr>RespStatusCode = 404, RespStatus = ''404 Not Found'', RespBody = ''{}''\<rparr>,
                  None), w)) []
     \<lparr>BaseUrl = ''https://fapi.binance.com'', Path = ''/fapi/v1/order'', Method = ''GET'',
      IsUserData = True, UserTimeInterval = 0, IpTimeInterval = 0,
      HTTPStatusCodeChecker =
        Some (\<lambda>code::int. if code = 200 then None else Some (External ''bad status'')),
      RespBodyUnmarshaler = Some (\<lambda>b::string. (b, None))\<rparr> () []
     \<lparr>world = (), trace = []\<rparr> =
   (Panic, \<lparr>world = (), trace = [Made, Sent ''GET'', Checked 404, Unmarshaled]\<rparr>)"
proof -
  let ?mk = "\<lambda>cfg (d::unit) (opts::unit list) (w::unit). ((Some (), None :: err option), w)"
  let ?rp = "\<lparr>RespStatusCode = 404, RespStatus = ''404 Not Found'', RespBody = ''{}''\<rparr>"
  let ?tr = "\<lambda>(m::string) (r::unit) (w::unit). ((Some ?rp, None :: err option), w)"
  let ?chk = "\<lambda>code::int. if code = 200 then None else Some (External ''bad status'')"
  let ?unm = "\<lambda>b::string. (b, None :: RespBodyUnmarshalerError option)"
  let ?cfg = "\<lparr>BaseUrl = ''https://fapi.binance.com'', Path = ''/fapi/v1/order'', Method = ''GET'',
      IsUserData = True, UserTimeInterval = 0, IpTimeInterval = 0,
      HTTPStatusCodeChecker = Some ?chk, RespBodyUnmarshaler = Some ?unm\<rparr>"
  let ?s = "\<lparr>world = (), trace = []\<rparr> :: unit state"
  have mk: "?mk (ReqBaseConfig.truncate ?cfg) () [] (world ?s) = ((Some (), None), ())" by simp
  have meth: "Method ?cfg \<in> {''GET'', ''POST'', ''PUT'', ''DELETE''}" by simp
  have tr: "?tr (Method ?cfg) () () = ((Some ?rp, None), ())" by simp
  have chk: "HTTPStatusCodeChecker ?cfg = Some ?chk" by simp
  have unm: "RespBodyUnmarshaler ?cfg = Some ?unm" by simp
  have resty: "(None :: err option) = None \<or>
      (\<exists>e. (None :: err option) = Some e \<and> errors_Is e ErrInvalidTimestamp = Ret False)"
    by simp
  have http: "?chk (RespStatusCode ?rp) = Some (External ''bad status'')" by simp
  have other: "errors_Is (External ''bad status'') ErrInvalidTimestamp = Ret False" by simp
  have body: "snd (?unm (RespBody ?rp)) = None" by simp
  show ?thesis
    using Request_panics_on_status_error_alone
      [where reqMaker = ?mk and transport = ?tr and zero = "[]" and config = ?cfg
         and reqData = "()" and opts = "[]" and s = ?s,
       OF mk meth tr chk unm resty http other body]
    by simp
qed

text \<open>
  C4. In an attempt that obtains a response, with a classifier and a decoder configured,
  both are called, the classifier first, whatever either returns. The attempt returns the
  decoder's payload. Its error is empty exactly when both report none; otherwise the HTTP
  error and the body error are attached where they occurred, and the error's text is the
  three parts in a row, a missing one printed as nil, wrapping the transport's error, the
  HTTP error and the body error pointer.
\<close>

theorem request_classifies_status_and_body:
  assumes mk: "reqMaker (ReqBaseConfig.truncate config) reqData opts (world s) = ((Some r, None), w)"
    and meth: "Method config \<in> {''GET'', ''POST'', ''PUT'', ''DELETE''}"
    and tr: "transport (Method config) r w = ((Some rp, errResty), w')"
    and chk: "HTTPStatusCodeChecker config = Some checker"
    and unm: "RespBodyUnmarshaler config = Some unmarshaler"
  shows "request reqMaker transport zero config reqData opts s =
     (Ret (Some rp, fst (unmarshaler (RespBody rp)),
        (if checker (RespStatusCode rp) = None \<and> snd (unmarshaler (RespBody rp)) = None
         then \<lparr>ReqBaseConfig = ReqBaseConfig.truncate config, HTTPError = None,
               RespBodyUnmarshalerError = None, Err = None\<rparr>
         else \<lparr>ReqBaseConfig = ReqBaseConfig.truncate config,
               HTTPError =
                 (case checker (RespStatusCode rp) of
                    None \<Rightarrow> None
                  | Some e \<Rightarrow>
                      Some \<lparr>StatusCode = RespStatusCode rp, Status = RespStatus rp, HErr = Some e\<rparr>),
               RespBodyUnmarshalerError = snd (unmarshaler (RespBody rp)),
               Err = Some
                 (Wrapped
                    (''cex: request, resty err: '' @ fmt_w errResty @
                     '', http err: '' @ fmt_w (checker (RespStatusCode rp)) @
                     '', body unmarshal err: '' @
                     Error_text (BodyErrPtr (snd (unmarshaler (RespBody rp)))))
                    ((case errResty of None \<Rightarrow> [] | Some e \<Rightarrow> [e]) @
                     (case checker (RespStatusCode rp) of None \<Rightarrow> [] | Some e \<Rightarrow> [e]) @
                     [BodyErrPtr (snd (unmarshaler (RespBody rp)))]))\<rparr>)),
      \<lparr>world = w',
       trace = trace s @ [Made, Sent (Method config), Checked (RespStatusCode rp), Unmarshaled]\<rparr>)"
proof -
  have e: "Errorf [Lit ''cex: request, resty err: '', W errResty, Lit '', http err: '', W eh,
                  Lit '', body unmarshal err: '', W (Some (BodyErrPtr eb))] =
      Wrapped (''cex: request, resty err: '' @ fmt_w errResty @ '', http err: '' @ fmt_w eh @
               '', body unmarshal err: '' @ Error_text (BodyErrPtr eb))
        ((case errResty of None \<Rightarrow> [] | Some e \<Rightarrow> [e]) @
         (case eh of None \<Rightarrow> [] | Some e \<Rightarrow> [e]) @ [BodyErrPtr eb])" for eh eb
    by (cases errResty; cases eh) (simp_all add: Errorf_def fmt_w_def)
  show ?thesis
    unfolding request_response
        [where reqMaker = reqMaker and transport = transport and config = config
           and reqData = reqData and opts = opts and s = s and zero = zero,
         OF mk meth tr chk unm] e base_error_def
    by simp
qed

theorem request_classifies_status_and_body_witness:
  "Method \<lparr>BaseUrl = ''https://fapi.binance.com'', Path = ''/fapi/v1/order'', Method = ''GET'',
      IsUserData = True, UserTimeInterval = 0, IpTimeInterval = 0,
      HTTPStatusCodeChecker =
        Some (\<lambda>code::int. if code = 200 then None else Some (External ''bad status'')),
      RespBodyUnmarshaler = Some (\<lambda>b::string. (b, None))\<rparr>
     \<in> {''GET'', ''POST'', ''PUT'', ''DELETE''} \<and>
   request (\<lambda>cfg (d::unit) (opts::unit list) (w::unit). ((Some (), None), w))
     (\<lambda>m r w. ((Some \<lparr>RespStatusCode = 404, RespStatus = ''404 Not Found'', RespBody = ''{}''\<rparr>,
                  None), w)) []
     \<lparr>BaseUrl = ''https://fapi.binance.com'', Path = ''/fapi/v1/order'', Method = ''GET'',
      IsUserData = True, UserTimeInterval = 0, IpTimeInterval = 0,
      HTTPStatusCodeChecker =
        Some (\<lambda>code::int. if code = 200 then None else Some (External ''bad status'')),
      RespBodyUnmarshaler = Some (\<lambda>b::string. (b, None))\<rparr> () []
     \<lparr>world = (), trace = []\<rparr> =
   (Ret (Some \<lparr>RespStatusCode = 404, RespStatus = ''404 Not Found'', RespBody = ''{}''\<rparr>, ''{}'',
      \<lparr>ReqBaseConfig =
         \<lparr>BaseUrl = ''https://fapi.binance.com'', Path = ''/fapi/v1/order'', Method = ''GET'',
          IsUserData = True, UserTimeInterval = 0, IpTimeInterval = 0\<rparr>,
       HTTPError =
         Some \<lparr>StatusCode = 404, Status = ''404 Not Found'', HErr = Some (External ''bad status'')\<rparr>,
       RespBodyUnmarshalerError = None,
       Err = Some
         (Wrapped
            ''cex: request, resty err: %!w(<nil>), http err: bad status, body unmarshal err: <nil>''
            [External ''bad status'', BodyErrPtr None])\<rparr>),
    \<lparr>world = (), trace = [Made, Sent ''GET'', Checked 404, Unmarshaled]\<rparr>)"
proof -
  let ?mk = "\<lambda>cfg (d::unit) (opts::unit list) (w::unit). ((Some (), None :: err option), w)"
  let ?rp = "\<lparr>RespStatusCode = 404, RespStatus = ''404 Not Found'', RespBody = ''{}''\<rparr>"
  let ?tr = "\<lambda>(m::string) (r::unit) (w::unit). ((Some ?rp, None :: err option), w)"
  let ?chk = "\<lambda>code::int. if code = 200 then None else Some (External ''bad status'')"
  let ?unm = "\<lambda>b::string. (b, None :: RespBodyUnmarshalerError option)"
  let ?cfg = "\<lparr>BaseUrl = ''https://fapi.binance.com'', Path = ''/fapi/v1/order'', Method = ''GET'',
      IsUserData = True, UserTimeInterval = 0, IpTimeInterval = 0,
      HTTPStatusCodeChecker = Some ?chk, RespBodyUnmarshaler = Some ?unm\<rparr>"
  let ?s = "\<lparr>world = (), trace = []\<rparr> :: unit state"
  have mk: "?mk (ReqBaseConfig.truncate ?cfg) () [] (world ?s) = ((Some (), None), ())" by simp
  have meth: "Method ?cfg \<in> {''GET'', ''POST'', ''PUT'', ''DELETE''}" by simp
  have tr: "?tr (Method ?cfg) () () = ((Some ?rp, None), ())" by simp
  have chk: "HTTPStatusCodeChecker ?cfg = Some ?chk" by simp
  have unm: "RespBodyUnmarshaler ?cfg = Some ?unm" by simp
  show ?thesis
    using request_classifies_status_and_body
      [where reqMaker = ?mk and transport = ?tr and zero = "[]" and config = ?cfg
         and reqData = "()" and opts = "[]" and s = ?s, OF mk meth tr chk unm]
    by (simp add: fmt_w_def ReqBaseConfig.truncate_def)
qed




text \<open>
  C6. When the body decodes into rows and the first twelve positions of every row encode
  and decode into a \<^verbatim>\<open>Kline\<close>, \<^verbatim>\<open>klineBodyUnmsher\<close> returns these klines and no error, whatever
  follows position 11 in a row. The map built from a row holds, under the \<open>i\<close>-th declared
  name, the value at position \<open>i\<close>, for the positions below twelve that the row has, and
  nothing else.
\<close>

theorem klineBodyUnmsher_positions:
  fixes J :: "('b, 'v, 't, 'k) kline_json"
  assumes rows: "Unmarshal_rows J b = Inr data"
    and dec: "map (\<lambda>row. kline_of J (take 12 row)) data = map Some ks"
  shows "klineBodyUnmsher J b = (ks, None) \<and>
     (\<forall>row. kline_range 0 row Map.empty = named_row (take 12 row) \<and>
        dom (named_row (take 12 row)) = set (take (length row) klineMapKeys) \<and>
        (\<forall>i. i < 12 \<and> i < length row \<longrightarrow>
           named_row (take 12 row) (klineMapKeys ! i) = Some (row ! i)))"
proof (intro conjI allI impI)
  have "kline_of J (take 12 row) = kline_of J row" for row :: "'v list"
    by (simp add: kline_of_def named_row_take)
  then have "map (kline_of J) data = map Some ks"
    using dec by simp
  then have "klines_range J data [] = ([] @ ks, None)" by (rule klines_range_all)
  then show "klineBodyUnmsher J b = (ks, None)"
    using rows by (simp add: klineBodyUnmsher_def)
next
  fix row :: "'c list"
  show "kline_range 0 row Map.empty = named_row (take 12 row)"
    by (simp add: kline_range_named_row named_row_take)
  show "dom (named_row (take 12 row)) = set (take (length row) klineMapKeys)"
    by (simp add: named_row_take dom_named_row)
  fix i assume "i < 12 \<and> i < length row"
  then show "named_row (take 12 row) (klineMapKeys ! i) = Some (row ! i)"
    by (simp add: named_row_take named_row_nth)
qed

theorem klineBodyUnmsher_positions_witness:
  "Unmarshal_rows \<lparr>Unmarshal_rows = Inr, Marshal_map = Inr,
      Unmarshal_Kline = (\<lambda>m. Inr (map m klineMapKeys))\<rparr>
     [[1, 2, 3, 4, 5, 6, 7, 8, 9, 10, 11, 12, 13, 14 :: nat]] =
     Inr [[1, 2, 3, 4, 5, 6, 7, 8, 9, 10, 11, 12, 13, 14]] \<and>
   klineBodyUnmsher \<lparr>Unmarshal_rows = Inr, Marshal_map = Inr,
      Unmarshal_Kline = (\<lambda>m. Inr (map m klineMapKeys))\<rparr>
     [[1, 2, 3, 4, 5, 6, 7, 8, 9, 10, 11, 12, 13, 14 :: nat]] =
     ([[Some 1, Some 2, Some 3, Some 4, Some 5, Some 6, Some 7, Some 8, Some 9, Some 10,
        Some 11, Some 12]], None)"
proof -
  let ?J = "\<lparr>Unmarshal_rows = Inr, Marshal_map = Inr,
      Unmarshal_Kline = (\<lambda>m. Inr (map m klineMapKeys))\<rparr>
      :: (nat list list, nat, string \<rightharpoonup> nat, nat option list) kline_json"
  let ?data = "[[1, 2, 3, 4, 5, 6, 7, 8, 9, 10, 11, 12, 13, 14 :: nat]]"
  have rows: "Unmarshal_rows ?J ?data = Inr ?data" by simp
  have dec: "map (\<lambda>row. kline_of ?J (take 12 row)) ?data =
      map Some [[Some 1, Some 2, Some 3, Some 4, Some 5, Some 6, Some 7, Some 8, Some 9,
        Some 10, Some 11, Some 12]]"
    by (simp add: kline_of_def named_row_def klineMapKeys_def)
  show ?thesis
    by (rule conjI [OF rows conjunct1 [OF klineBodyUnmsher_positions [OF rows dec]]])
qed

text \<open>
  C7 (as amended). When the maker fails, the attempt returns the request-construction
  error, which wraps the maker's error, and sends nothing. The call ends with that
  attempt when the maker's error does not match \<^verbatim>\<open>cex.ErrInvalidTimestamp\<close>: the loop tests
  the cause of the error only, not the step that failed.
\<close>

theorem construction_failure_is_terminal:
  assumes mk: "reqMaker (ReqBaseConfig.truncate config) reqData opts (world s) = ((req, Some e), w)"
  shows "request reqMaker transport zero config reqData opts s =
       (Ret (None, zero,
          SetErr (base_error config) (Errorf [Lit ''cex: make request, '', W (Some e)])),
        log Made w s) \<and>
     sends (log Made w s) = sends s \<and>
     (errors_Is e ErrInvalidTimestamp = Ret False \<longrightarrow>
        Request reqMaker transport zero config reqData opts s =
          request reqMaker transport zero config reqData opts s)"
proof (intro conjI impI)
  show r: "request reqMaker transport zero config reqData opts s =
       (Ret (None, zero,
          SetErr (base_error config) (Errorf [Lit ''cex: make request, '', W (Some e)])),
        log Made w s)"
    using mk by (rule request_make_error)
  show "sends (log Made w s) = sends s" by (simp add: sends_def log_def)
  assume "errors_Is e ErrInvalidTimestamp = Ret False"
  then have "RequestError_Is
      (snd (snd (None :: 'f Response option, zero,
         SetErr (base_error config) (Errorf [Lit ''cex: make request, '', W (Some e)]))))
      ErrInvalidTimestamp = Ret False"
    by (simp add: RequestError_Is_def SetErr_def Errorf_def)
  with r show "Request reqMaker transport zero config reqData opts s =
      request reqMaker transport zero config reqData opts s"
    by (simp add: Request_single)
qed


theorem construction_failure_is_terminal_witness:
  "errors_Is (External ''unsupported field type'') ErrInvalidTimestamp = Ret False \<and>
   Request (\<lambda>cfg (d::unit) (opts::unit list) (w::unit).
              ((None :: unit option, Some (External ''unsupported field type'')), w))
     (\<lambda>m r w. ((None :: unit Response option, None), w)) ()
     \<lparr>BaseUrl = ''https://fapi.binance.com'', Path = ''/fapi/v1/order'', Method = ''POST'',
      IsUserData = True, UserTimeInterval = 0, IpTimeInterval = 0,
      HTTPStatusCodeChecker = None, RespBodyUnmarshaler = None\<rparr> () []
     \<lparr>world = (), trace = []\<rparr> =
   (Ret (None, (),
      \<lparr>ReqBaseConfig =
         \<lparr>BaseUrl = ''https://fapi.binance.com'', Path = ''/fapi/v1/order'', Method = ''POST'',
          IsUserData = True, UserTimeInterval = 0, IpTimeInterval = 0\<rparr>,
       HTTPError = None, RespBodyUnmarshalerError = None,
       Err = Some (Wrapped ''cex: make request, unsupported field type''
                     [External ''unsupported field type''])\<rparr>),
    \<lparr>world = (), trace = [Made]\<rparr>)"
proof -
  let ?mk = "\<lambda>cfg (d::unit) (opts::unit list) (w::unit).
      ((None :: unit option, Some (External ''unsupported field type'')), w)"
  let ?tr = "\<lambda>(m::string) (r::unit) (w::unit). ((None :: unit Response option, None :: err option), w)"
  let ?cfg = "\<lparr>BaseUrl = ''https://fapi.binance.com'', Path = ''/fapi/v1/order'', Method = ''POST'',
      IsUserData = True, UserTimeInterval = 0, IpTimeInterval = 0,
      HTTPStatusCodeChecker = None, RespBodyUnmarshaler = None\<rparr> :: (unit, unit) ReqConfig"
  let ?s = "\<lparr>world = (), trace = []\<rparr> :: unit state"
  have mk: "?mk (ReqBaseConfig.truncate ?cfg) () [] (world ?s) =
      ((None, Some (External ''unsupported field type'')), ())"
    by simp
  have no: "errors_Is (External ''unsupported field type'') ErrInvalidTimestamp = Ret False"
    by simp
  show ?thesis
    using construction_failure_is_terminal
      [where reqMaker = ?mk and transport = ?tr and zero = "()" and config = ?cfg
         and reqData = "()" and opts = "[]" and s = ?s, OF mk] no
    by (simp add: SetErr_def base_error_def Errorf_def fmt_w_def log_def ReqBaseConfig.truncate_def)
qed

text \<open>
  A maker whose error is the clock-skew sentinel: the construction error wraps it, the
  loop's test succeeds, and the maker is called three times.
\<close>

theorem construction_failure_retried_counterexample:
  "Request (\<lambda>cfg (d::unit) (opts::unit list) (w::unit).
              ((None :: unit option, Some (Sentinel ErrInvalidTimestamp)), w))
     (\<lambda>m r w. ((None :: unit Response option, None), w)) ()
     \<lparr>BaseUrl = ''https://fapi.binance.com'', Path = ''/fapi/v1/order'', Method = ''POST'',
      IsUserData = True, UserTimeInterval = 0, IpTimeInterval = 0,
      HTTPStatusCodeChecker = None, RespBodyUnmarshaler = None\<rparr> () []
     \<lparr>world = (), trace = []\<rparr> =
   (Ret (None, (),
      \<lparr>ReqBaseConfig =
         \<lparr>BaseUrl = ''https://fapi.binance.com'', Path = ''/fapi/v1/order'', Method = ''POST'',
          IsUserData = True, UserTimeInterval = 0, IpTimeInterval = 0\<rparr>,
       HTTPError = None, RespBodyUnmarshalerError = None,
       Err = Some (Wrapped ''cex: make request, ErrInvalidTimestamp''
                     [Sentinel ErrInvalidTimestamp])\<rparr>),
    \<lparr>world = (), trace = [Made, Made, Made]\<rparr>)"
proof -
  let ?mk = "\<lambda>cfg (d::unit) (opts::unit list) (w::unit).
      ((None :: unit option, Some (Sentinel ErrInvalidTimestamp)), w)"
  let ?tr = "\<lambda>(m::string) (r::unit) (w::unit). ((None :: unit Response option, None :: err option), w)"
  let ?cfg = "\<lparr>BaseUrl = ''https://fapi.binance.com'', Path = ''/fapi/v1/order'', Method = ''POST'',
      IsUserData = True, UserTimeInterval = 0, IpTimeInterval = 0,
      HTTPStatusCodeChecker = None, RespBodyUnmarshaler = None\<rparr> :: (unit, unit) ReqConfig"
  have att: "request ?mk ?tr () ?cfg () [] s =
      (Ret (None, (),
         SetErr (base_error ?cfg)
           (Errorf [Lit ''cex: make request, '', W (Some (Sentinel ErrInvalidTimestamp))])),
       log Made () s)" for s :: "unit state"
    by (rule request_make_error
        [where reqMaker = ?mk and transport = ?tr and zero = "()" and config = ?cfg
           and reqData = "()" and opts = "[]" and s = s]) simp
  have "Request ?mk ?tr () ?cfg () [] \<lparr>world = (), trace = []\<rparr> =
      (Ret (None, (),
         SetErr (base_error ?cfg)
           (Errorf [Lit ''cex: make request, '', W (Some (Sentinel ErrInvalidTimestamp))])),
       log Made () (log Made () (log Made () \<lparr>world = (), trace = []\<rparr>)))"
    unfolding Request_def Request_loop_unroll att
    by (simp add: retries_def yields_def RequestError_Is_def SetErr_def Errorf_def)
  then show ?thesis
    by (simp add: SetErr_def base_error_def Errorf_def fmt_w_def log_def
        ReqBaseConfig.truncate_def ErrInvalidTimestamp_def)
qed

text \<open>
  C8 (as amended). When the transport returns no response, the attempt returns an error
  and nothing is classified or decoded: with a transport error, the error that wraps it;
  with none, the error that tells of a broken transport, which wraps nothing and is a
  different error. The call ends with that attempt, unless the transport's error matches
  \<^verbatim>\<open>cex.ErrInvalidTimestamp\<close>.
\<close>

theorem no_response_is_terminal:
  assumes mk: "reqMaker (ReqBaseConfig.truncate config) reqData opts (world s) = ((Some r, None), w)"
    and meth: "Method config \<in> {''GET'', ''POST'', ''PUT'', ''DELETE''}"
    and tr: "transport (Method config) r w = ((None, te), w')"
  shows "request reqMaker transport zero config reqData opts s =
       (Ret (None, zero,
          SetErr (base_error config)
            (case te of
               Some e \<Rightarrow> Errorf [Lit ''cex: request err: '', W (Some e)]
             | None \<Rightarrow> Errorf [Lit ''cex: resp and err are all nil, resty may have bugs''])),
        log (Sent (Method config)) w' (log Made w s)) \<and>
     ((case te of Some e \<Rightarrow> errors_Is e ErrInvalidTimestamp = Ret False | None \<Rightarrow> True) \<longrightarrow>
        Request reqMaker transport zero config reqData opts s =
          request reqMaker transport zero config reqData opts s) \<and>
     (\<forall>e. Errorf [Lit ''cex: request err: '', W (Some e)] \<noteq>
          Errorf [Lit ''cex: resp and err are all nil, resty may have bugs''])"
proof (cases te)
  case None
  have r: "request reqMaker transport zero config reqData opts s =
      (Ret (None, zero,
         SetErr (base_error config)
           (Errorf [Lit ''cex: resp and err are all nil, resty may have bugs''])),
       log (Sent (Method config)) w' (log Made w s))"
    using mk meth tr [unfolded None] by (rule request_no_response_no_error)
  have "RequestError_Is
      (snd (snd (None :: 'f Response option, zero,
         SetErr (base_error config)
           (Errorf [Lit ''cex: resp and err are all nil, resty may have bugs'']))))
      ErrInvalidTimestamp = Ret False"
    by (simp add: RequestError_Is_def SetErr_def Errorf_def)
  with r have "Request reqMaker transport zero config reqData opts s =
      request reqMaker transport zero config reqData opts s"
    by (simp add: Request_single)
  with r None show ?thesis by (simp add: Errorf_def)
next
  case (Some e)
  have r: "request reqMaker transport zero config reqData opts s =
      (Ret (None, zero, SetErr (base_error config) (Errorf [Lit ''cex: request err: '', W (Some e)])),
       log (Sent (Method config)) w' (log Made w s))"
    using mk meth tr [unfolded Some] by (rule request_transport_error)
  have "Request reqMaker transport zero config reqData opts s =
      request reqMaker transport zero config reqData opts s"
    if "errors_Is e ErrInvalidTimestamp = Ret False"
  proof -
    from that have "RequestError_Is
        (snd (snd (None :: 'f Response option, zero,
           SetErr (base_error config) (Errorf [Lit ''cex: request err: '', W (Some e)]))))
        ErrInvalidTimestamp = Ret False"
      by (simp add: RequestError_Is_def SetErr_def Errorf_def)
    with r show ?thesis by (simp add: Request_single)
  qed
  with r Some show ?thesis by (simp add: Errorf_def)
qed

theorem no_response_is_terminal_witness:
  "Method \<lparr>BaseUrl = ''https://fapi.binance.com'', Path = ''/fapi/v1/order'', Method = ''GET'',
      IsUserData = True, UserTimeInterval = 0, IpTimeInterval = 0,
      HTTPStatusCodeChecker = None :: (int \<Rightarrow> err option) option,
      RespBodyUnmarshaler = None :: (unit, unit) RespBodyUnmarshaler option\<rparr>
     \<in> {''GET'', ''POST'', ''PUT'', ''DELETE''} \<and>
   errors_Is (External ''dial tcp: connection refused'') ErrInvalidTimestamp = Ret False \<and>
   Request (\<lambda>cfg (d::unit) (opts::unit list) (w::unit). ((Some (), None), w))
     (\<lambda>m r w. ((None :: unit Response option, Some (External ''dial tcp: connection refused'')), w)) ()
     \<lparr>BaseUrl = ''https://fapi.binance.com'', Path = ''/fapi/v1/order'', Method = ''GET'',
      IsUserData = True, UserTimeInterval = 0, IpTimeInterval = 0,
      HTTPStatusCodeChecker = None, RespBodyUnmarshaler = None\<rparr> () []
     \<lparr>world = (), trace = []\<rparr> =
   (Ret (None, (),
      \<lparr>ReqBaseConfig =
         \<lparr>BaseUrl = ''https://fapi.binance.com'', Path = ''/fapi/v1/order'', Method = ''GET'',
          IsUserData = True, UserTimeInterval = 0, IpTimeInterval = 0\<rparr>,
       HTTPError = None, RespBodyUnmarshalerError = None,
       Err = Some (Wrapped ''cex: request err: dial tcp: connection refused''
                     [External ''dial tcp: connection refused''])\<rparr>),
    \<lparr>world = (), trace = [Made, Sent ''GET'']\<rparr>) \<and>
   Request (\<lambda>cfg (d::unit) (opts::unit list) (w::unit). ((Some (), None), w))
     (\<lambda>m r w. ((None :: unit Response option, None), w)) ()
     \<lparr>BaseUrl = ''https://fapi.binance.com'', Path = ''/fapi/v1/order'', Method = ''GET'',
      IsUserData = True, UserTimeInterval = 0, IpTimeInterval = 0,
      HTTPStatusCodeChecker = None, RespBodyUnmarshaler = None\<rparr> () []
     \<lparr>world = (), trace = []\<rparr> =
   (Ret (None, (),
      \<lparr>ReqBaseConfig =
         \<lparr>BaseUrl = ''https://fapi.binance.com'', Path = ''/fapi/v1/order'', Method = ''GET'',
          IsUserData = True, UserTimeInterval = 0, IpTimeInterval = 0\<rparr>,
       HTTPError = None, RespBodyUnmarshalerError = None,
       Err = Some (Wrapped ''cex: resp and err are all nil, resty may have bugs'' [])\<rparr>),
    \<lparr>world = (), trace = [Made, Sent ''GET'']\<rparr>)"
proof -
  let ?mk = "\<lambda>cfg (d::unit) (opts::unit list) (w::unit). ((Some (), None :: err option), w)"
  let ?tre = "\<lambda>(m::string) (r::unit) (w::unit).
      ((None :: unit Response option, Some (External ''dial tcp: connection refused'')), w)"
  let ?trn = "\<lambda>(m::string) (r::unit) (w::unit). ((None :: unit Response option, None :: err option), w)"
  let ?cfg = "\<lparr>BaseUrl = ''https://fapi.binance.com'', Path = ''/fapi/v1/order'', Method = ''GET'',
      IsUserData = True, UserTimeInterval = 0, IpTimeInterval = 0,
      HTTPStatusCodeChecker = None, RespBodyUnmarshaler = None\<rparr> :: (unit, unit) ReqConfig"
  let ?s = "\<lparr>world = (), trace = []\<rparr> :: unit state"
  have mk: "?mk (ReqBaseConfig.truncate ?cfg) () [] (world ?s) = ((Some (), None), ())" by simp
  have meth: "Method ?cfg \<in> {''GET'', ''POST'', ''PUT'', ''DELETE''}" by simp
  have tre: "?tre (Method ?cfg) () () = ((None, Some (External ''dial tcp: connection refused'')), ())"
    by simp
  have trn: "?trn (Method ?cfg) () () = ((None, None), ())" by simp
  have no: "errors_Is (External ''dial tcp: connection refused'') ErrInvalidTimestamp = Ret False"
    by simp
  show ?thesis
    using no_response_is_terminal
      [where reqMaker = ?mk and transport = ?tre and zero = "()" and config = ?cfg
         and reqData = "()" and opts = "[]" and s = ?s, OF mk meth tre]
      no_response_is_terminal
      [where reqMaker = ?mk and transport = ?trn and zero = "()" and config = ?cfg
         and reqData = "()" and opts = "[]" and s = ?s, OF mk meth trn]
      no
    by (simp add: SetErr_def base_error_def Errorf_def fmt_w_def log_def ReqBaseConfig.truncate_def)
qed

text \<open>
  A transport that returns no response and the clock-skew sentinel as its error: the
  transport error wraps it, and the request is sent three times.
\<close>

theorem transport_error_retried_counterexample:
  "Request (\<lambda>cfg (d::unit) (opts::unit list) (w::unit). ((Some (), None), w))
     (\<lambda>m r w. ((None :: unit Response option, Some (Sentinel ErrInvalidTimestamp)), w)) ()
     \<lparr>BaseUrl = ''https://fapi.binance.com'', Path = ''/fapi/v1/order'', Method = ''GET'',
      IsUserData = True, UserTimeInterval = 0, IpTimeInterval = 0,
      HTTPStatusCodeChecker = None, RespBodyUnmarshaler = None\<rparr> () []
     \<lparr>world = (), trace = []\<rparr> =
   (Ret (None, (),
      \<lparr>ReqBaseConfig =
         \<lparr>BaseUrl = ''https://fapi.binance.com'', Path = ''/fapi/v1/order'', Method = ''GET'',
          IsUserData = True, UserTimeInterval = 0, IpTimeInterval = 0\<rparr>,
       HTTPError = None, RespBodyUnmarshalerError = None,
       Err = Some (Wrapped ''cex: request err: ErrInvalidTimestamp''
                     [Sentinel ErrInvalidTimestamp])\<rparr>),
    \<lparr>world = (),
     trace = [Made, Sent ''GET'', Made, Sent ''GET'', Made, Sent ''GET'']\<rparr>)"
proof -
  let ?mk = "\<lambda>cfg (d::unit) (opts::unit list) (w::unit). ((Some (), None :: err option), w)"
  let ?tr = "\<lambda>(m::string) (r::unit) (w::unit).
      ((None :: unit Response option, Some (Sentinel ErrInvalidTimestamp)), w)"
  let ?cfg = "\<lparr>BaseUrl = ''https://fapi.binance.com'', Path = ''/fapi/v1/order'', Method = ''GET'',
      IsUserData = True, UserTimeInterval = 0, IpTimeInterval = 0,
      HTTPStatusCodeChecker = None, RespBodyUnmarshaler = None\<rparr> :: (unit, unit) ReqConfig"
  have att: "request ?mk ?tr () ?cfg () [] s =
      (Ret (None, (),
         SetErr (base_error ?cfg)
           (Errorf [Lit ''cex: request err: '', W (Some (Sentinel ErrInvalidTimestamp))])),
       log (Sent (Method ?cfg)) () (log Made () s))" for s :: "unit state"
    by (rule request_transport_error
        [where reqMaker = ?mk and transport = ?tr and zero = "()" and config = ?cfg
           and reqData = "()" and opts = "[]" and s = s]) simp_all
  have "Request ?mk ?tr () ?cfg () [] \<lparr>world = (), trace = []\<rparr> =
      (Ret (None, (),
         SetErr (base_error ?cfg)
           (Errorf [Lit ''cex: request err: '', W (Some (Sentinel ErrInvalidTimestamp))])),
       log (Sent (Method ?cfg)) () (log Made ()
         (log (Sent (Method ?cfg)) () (log Made ()
           (log (Sent (Method ?cfg)) () (log Made () \<lparr>world = (), trace = []\<rparr>))))))"
    unfolding Request_def Request_loop_unroll att
    by (simp add: retries_def yields_def RequestError_Is_def SetErr_def Errorf_def)
  then show ?thesis
    by (simp add: SetErr_def base_error_def Errorf_def fmt_w_def log_def
        ReqBaseConfig.truncate_def ErrInvalidTimestamp_def)
qed

text \<open>
  C9. With no signer configured, \<open>Sign\<close> returns the nil signature for every payload and
  key; it does not panic.
\<close>

theorem Sign_without_signer:
  "signer a = None \<Longrightarrow> Sign a payload key = Ret None"
  by (simp add: Sign_def)

theorem Sign_without_signer_witness:
  "signer \<lparr>ApiKey = ''a'', SecretKey = ''k'', Passphrase = [], signer = None\<rparr> = None \<and>
   Sign \<lparr>ApiKey = ''a'', SecretKey = ''k'', Passphrase = [], signer = None\<rparr>
     ''symbol=ETHUSDT'' ''k'' = Ret None"
  using Sign_without_signer
    [of "\<lparr>ApiKey = ''a'', SecretKey = ''k'', Passphrase = [], signer = None\<rparr>" "''symbol=ETHUSDT''" "''k''"]
  by simp

text \<open>
  C10. When the code read from the envelope is positive and not 200, the wrapper returns
  the zero payload and an error that carries the code and the message and wraps
  \<^verbatim>\<open>cex.ErrUnexpected\<close>, whatever the wrapped decoder is: the decoder is not called. The
  envelope check passes for the codes 0 and 200 only.
\<close>

theorem fu_positive_code_unexpected:
  "(0 < Code (envelope b) \<and> Code (envelope b) \<noteq> 200 \<longrightarrow>
      (\<exists>e. errors_Is e ErrUnexpected = Ret True \<and>
           (\<forall>unmarshaler. fuBodyUnmshWrapper tbl zero unmarshaler b =
              (zero, Some (MkBodyErr (Code (envelope b)) (Msg (envelope b)) (Some e)))))) \<and>
   (fuBodyUnmshCodeMsg tbl b = None \<longleftrightarrow> Code (envelope b) = 0 \<or> Code (envelope b) = 200)"
proof (intro conjI impI)
  assume pos: "0 < Code (envelope b) \<and> Code (envelope b) \<noteq> 200"
  let ?e = "Errorf [Lit ''bnc: '', W (Some (Sentinel ErrUnexpected)),
      Lit ('': code: '' @ FormatInt (Code (envelope b)) @ '', msg: '' @ Msg (envelope b))]"
  have "errors_Is ?e ErrUnexpected = Ret True" by (simp add: Errorf_def)
  moreover have "fuBodyUnmshCodeMsg tbl b =
      Some (MkBodyErr (Code (envelope b)) (Msg (envelope b)) (Some ?e))"
    using pos by (simp add: fuBodyUnmshCodeMsg_def envelope_def Let_def)
  then have "\<forall>unmarshaler. fuBodyUnmshWrapper tbl zero unmarshaler b =
      (zero, Some (MkBodyErr (Code (envelope b)) (Msg (envelope b)) (Some ?e)))"
    by (simp add: fuBodyUnmshWrapper_def)
  ultimately show "\<exists>e. errors_Is e ErrUnexpected = Ret True \<and>
      (\<forall>unmarshaler. fuBodyUnmshWrapper tbl zero unmarshaler b =
         (zero, Some (MkBodyErr (Code (envelope b)) (Msg (envelope b)) (Some e))))"
    by blast
next
  show "fuBodyUnmshCodeMsg tbl b = None \<longleftrightarrow> Code (envelope b) = 0 \<or> Code (envelope b) = 200"
    by (rule fuBodyUnmshCodeMsg_None)
qed

theorem fu_positive_code_unexpected_witness:
  "0 < Code (envelope (Doc (JObject [(''code'', JInteger 404), (''msg'', JString ''nf'')]))) \<and>
   Code (envelope (Doc (JObject [(''code'', JInteger 404), (''msg'', JString ''nf'')]))) \<noteq> 200 \<and>
   (\<exists>e. errors_Is e ErrUnexpected = Ret True \<and>
      (\<forall>unmarshaler. fuBodyUnmshWrapper (\<lambda>code. None) (0::nat) unmarshaler
          (Doc (JObject [(''code'', JInteger 404), (''msg'', JString ''nf'')])) =
        (0, Some (MkBodyErr 404 ''nf'' (Some e))))) \<and>
   (\<exists>e. errors_Is e ErrUnexpected = Ret True \<and>
      (\<forall>unmarshaler. fuBodyUnmshWrapper (\<lambda>code. None) (0::nat) unmarshaler
          (Doc (JObject [(''Code'', JInteger 404),
                         ([CHR ''m'', CHR 0xC5, CHR 0xBF, CHR ''g''], JString ''nf'')])) =
        (0, Some (MkBodyErr 404 ''nf'' (Some e)))))"
proof -
  have e: "envelope (Doc (JObject [(''code'', JInteger 404), (''msg'', JString ''nf'')])) =
      \<lparr>Code = 404, Msg = ''nf''\<rparr>"
    by (simp add: envelope_def names_field_def upper_def fits_int_def)
  have f: "envelope (Doc (JObject [(''Code'', JInteger 404),
        ([CHR ''m'', CHR 0xC5, CHR 0xBF, CHR ''g''], JString ''nf'')])) =
      \<lparr>Code = 404, Msg = ''nf''\<rparr>"
    by (simp add: envelope_def names_field_def upper_def fits_int_def)
  show ?thesis
    using fu_positive_code_unexpected
      [of "Doc (JObject [(''code'', JInteger 404), (''msg'', JString ''nf'')])" "\<lambda>code. None" "0::nat"]
      fu_positive_code_unexpected
      [of "Doc (JObject [(''Code'', JInteger 404),
             ([CHR ''m'', CHR 0xC5, CHR 0xBF, CHR ''g''], JString ''nf'')])" "\<lambda>code. None" "0::nat"]
    by (simp add: e f)
qed

end
